theory Spec2Isabelle
  imports Complex_Main
begin

section \<open>Type definitions of Game.tsx\<close>

text \<open>
  The string-literal union types of the source are datatypes, its interfaces are records.
  A JavaScript \<open>number\<close> is only stored and compared by the client (it does no
  arithmetic on one), so it is a \<open>real\<close>. Field names are the source's, except
  where two interfaces share a name or the name is a keyword of the theory language:
  \<open>AuthenticityMetric.value\<close> is \<open>metricValue\<close>, \<open>Choice.text\<close> is \<open>choiceText\<close>,
  \<open>Item.name\<close> and \<open>Item.description\<close> are \<open>itemName\<close> and \<open>itemDescription\<close>,
  \<open>Enemy.name\<close>, \<open>Enemy.hitPoints\<close> and \<open>Enemy.maxHitPoints\<close> are \<open>enemyName\<close>,
  \<open>enemyHitPoints\<close> and \<open>enemyMaxHitPoints\<close>, and \<open>CombatOutcome.damage\<close> and
  \<open>CombatOutcome.explanation\<close> are \<open>outcomeDamage\<close> and \<open>outcomeExplanation\<close>.

  Text that the user types and the client looks into (the name of the character, which
  is trimmed) is a \<open>jsstring\<close>, the list of its UTF-16 code units. Identifiers and other
  text that the client spells out or passes on unread are strings of the theory language;
  \<open>js\<close> gives their code units.
\<close>

type_synonym jsstring = "nat list"

definition js :: "string \<Rightarrow> jsstring" where
  "js s = map of_char s"

datatype PhilosophicalAlignment = Utilitarian | Existentialist | Nihilist | Undecided

datatype PermanentMarker = Hypocrite | Hedonist | Sophist | Martyr

datatype ItemType = Weapon | Armor | Accessory | Consumable

datatype Difficulty = Easy | Medium | Hard | Expert

datatype FallacyType =
    AdHominem
  | AppealToAuthority
  | Equivocation
  | StrawMan
  | FalseDialemma
  | SlipperySlope
  | CircularReasoning
  | AppealToConsequences

type_synonym number = real

record LogEntry =
  timestamp :: string
  choice :: string
  impact :: number
  reason :: string

record AuthenticityMetric =
  metricValue :: number
  history :: "LogEntry list"
  permanentMarkers :: "PermanentMarker list"

record TemporaryEffect =
  duration :: number
  statBonus :: number
  penalty :: number

record Item =
  itemId :: string
  itemName :: string
  itemType :: ItemType
  bodyModifier :: number
  mindModifier :: number
  heartModifier :: number
  authenticityImpact :: number
  temporaryEffect :: "TemporaryEffect option"
  itemDescription :: string
  philosophicalMeaning :: string

record Fallacy =
  fallacyType :: FallacyType
  argument :: string
  correctIdentification :: string
  explanation :: string
  damage :: number

record PlayerState =
  playerId :: string
  name :: jsstring
  body :: number
  mind :: number
  heart :: number
  hitPoints :: number
  maxHitPoints :: number
  authenticityMetric :: AuthenticityMetric
  philosophicalAlignment :: PhilosophicalAlignment
  inventory :: "Item list"
  equippedFallacies :: "Fallacy list"
  experience :: number
  level :: number
  activeEffects :: "TemporaryEffect list"

record Enemy =
  enemyId :: string
  enemyName :: string
  historicalFigure :: string
  representedFlaw :: FallacyType
  enemyHitPoints :: number
  enemyMaxHitPoints :: number
  weakness :: FallacyType
  lore :: string

record Choice =
  choiceId :: string
  choiceText :: string
  alignmentInfluence :: PhilosophicalAlignment
  authenticityChange :: number
  reasoning :: string

record Scenario =
  scenarioId :: string
  title :: string
  description :: string
  choices :: "Choice list"
  philosophicalBasis :: string

text \<open>
  A value of TypeScript's type \<open>any\<close>, as far as JSON can carry one, and \<open>undefined\<close>
  for a property that is absent. It is the type of the request bodies handed to
  \<open>JSON.stringify\<close> (the model keeps the value and leaves the serialisation out) and of
  the response fields that the code only tests.
\<close>

datatype any =
    Undefined
  | Null
  | Boolean bool
  | Number number
  | Str jsstring
  | Array "any list"
  | Object "(string \<times> any) list"

text \<open>A string that the theory language spells, as a value.\<close>

abbreviation String :: "string \<Rightarrow> any" where
  "String s \<equiv> Str (js s)"

text \<open>JavaScript's ToBoolean, which \<open>!x\<close> and \<open>x && y\<close> apply to \<open>x\<close>.\<close>

fun truthy :: "any \<Rightarrow> bool" where
  "truthy Undefined = False"
| "truthy Null = False"
| "truthy (Boolean b) = b"
| "truthy (Number n) = (n \<noteq> 0)"
| "truthy (Str s) = (s \<noteq> [])"
| "truthy (Array xs) = True"
| "truthy (Object kvs) = True"

text \<open>Property access \<open>v.k\<close> on an object literal: the last binding of the key wins.\<close>

fun getProp :: "string \<Rightarrow> any \<Rightarrow> any" where
  "getProp k (Object kvs) = (case map_of (rev kvs) k of None \<Rightarrow> Undefined | Some v \<Rightarrow> v)"
| "getProp k v = Undefined"

text \<open>
  The interface \<open>CombatOutcome\<close> is also the declared type of the body that
  \<open>/combat/syllogism\<close> answers with. Its three \<open>any\<close> fields are modelled at the types
  of the state variables they are assigned to (\<open>None\<close> for \<open>null\<close> and \<open>undefined\<close>);
  \<open>continuesCombat\<close> is only tested for truthiness and stays an \<open>any\<close>.
\<close>

datatype CombatOutcome = CombatOutcome
  (success: bool)
  (outcomeDamage: number)
  (outcomeExplanation: string)
  (experienceGained: number)
  (combatOutcome: "CombatOutcome option")
  (updatedPlayer: "PlayerState option")
  (continuesCombat: any)

text \<open>
  The body that \<open>/action\<close> answers with has type \<open>any\<close>; the code reads its properties
  \<open>type\<close> and \<open>playerState\<close>.
\<close>

record ActionResponse =
  responseType :: any
  responsePlayerState :: "PlayerState option"

datatype GamePhase =
    Phase_character_creation
  | Phase_exploration
  | Phase_combat
  | Phase_scenario
  | Phase_ending

fun alignmentString :: "PhilosophicalAlignment \<Rightarrow> string" where
  "alignmentString Utilitarian = ''Utilitarian''"
| "alignmentString Existentialist = ''Existentialist''"
| "alignmentString Nihilist = ''Nihilist''"
| "alignmentString Undecided = ''Undecided''"

section \<open>API communication layer\<close>

text \<open>
  A promise is modelled by the value it settles to: \<open>Inl\<close> a rejection, \<open>Inr\<close> the
  result. The errors are the three kinds that can reach the callers: the \<open>Error\<close> that
  \<open>apiRequest\<close> throws, the \<open>TypeError\<close> of a \<open>fetch\<close> that fails, and the
  \<open>SyntaxError\<close> of a body that is not JSON.
\<close>

datatype js_error = Error string | TypeError string | SyntaxError string

fun message :: "js_error \<Rightarrow> string" where
  "message (Error m) = m"
| "message (TypeError m) = m"
| "message (SyntaxError m) = m"

text \<open>Each of the three is an instance of \<open>Error\<close>.\<close>

fun instanceof_Error :: "js_error \<Rightarrow> bool" where
  "instanceof_Error (Error m) = True"
| "instanceof_Error (TypeError m) = True"
| "instanceof_Error (SyntaxError m) = True"

text \<open>
  The two arguments of \<open>fetch\<close> as one record: the URL, and of the init object the
  \<open>headers\<close>, the \<open>method\<close> and the \<open>body\<close>. \<open>RequestInit\<close> is the \<open>options\<close> argument
  of \<open>apiRequest\<close>, of which the callers set \<open>method\<close> and \<open>body\<close> or nothing.
\<close>

record Request =
  url :: string
  headers :: "(string \<times> string) list"
  requestMethod :: "string option"
  requestBody :: "any option"

record RequestInit =
  initMethod :: "string option"
  initBody :: "any option"

text \<open>
  What \<open>fetch\<close> resolves with: \<open>json\<close> is what \<open>response.json()\<close> settles to, the
  parsed body or the parser's error.
\<close>

record 'a Response =
  ok :: bool
  status :: nat
  statusText :: string
  json :: "js_error + 'a"

type_synonym 'a fetch = "Request \<Rightarrow> js_error + 'a Response"

text \<open>What a handler does besides changing the state.\<close>

datatype Effect =
    Fetch Request
  | ConsoleError string js_error
  | ConsoleLog string

fun fetched :: "Effect list \<Rightarrow> Request list" where
  "fetched [] = []"
| "fetched (Fetch r # es) = r # fetched es"
| "fetched (e # es) = fetched es"

definition API_BASE :: string where
  "API_BASE = ''http://localhost:8080/api''"

definition createHeaders :: "(string \<times> string) list" where
  "createHeaders = [(''Content-Type'', ''application/json''), (''Accept'', ''application/json'')]"

text \<open>Decimal digits of a status code, as the template literal prints it.\<close>

fun digit_char :: "nat \<Rightarrow> char" where
  "digit_char n = char_of (48 + n)"

fun show_nat :: "nat \<Rightarrow> string" where
  "show_nat n = (if n < 10 then [digit_char n] else show_nat (n div 10) @ [digit_char (n mod 10)])"

declare show_nat.simps [simp del]

definition apiRequest :: "'a fetch \<Rightarrow> string \<Rightarrow> RequestInit \<Rightarrow> Effect list \<times> (js_error + 'a)" where
  "apiRequest fetch endpoint options =
     (let request = \<lparr>url = API_BASE @ endpoint, headers = createHeaders,
                      requestMethod = initMethod options, requestBody = initBody options\<rparr>
      in ([Fetch request],
          (case fetch request of
             Inl e \<Rightarrow> Inl e
           | Inr response \<Rightarrow>
               if \<not> ok response
               then Inl (Error (''API Error: '' @ show_nat (status response) @ '' '' @ statusText response))
               else json response)))"

text \<open>
  The body of \<open>/player/create\<close> and of \<open>/player/{id}\<close> is declared a \<open>PlayerState\<close>; the
  JSON value \<open>null\<close>, which the callers store as they store a player, is \<open>None\<close>.
\<close>

definition createPlayer ::
  "PlayerState option fetch \<Rightarrow> jsstring \<Rightarrow> PhilosophicalAlignment
     \<Rightarrow> Effect list \<times> (js_error + PlayerState option)" where
  "createPlayer fetch name' alignment =
     apiRequest fetch ''/player/create''
       \<lparr>initMethod = Some ''POST'',
        initBody = Some (Object [(''playerName'', Str name'),
                                 (''initialAlignment'', String (alignmentString alignment))])\<rparr>"

definition getPlayerState ::
  "PlayerState option fetch \<Rightarrow> string \<Rightarrow> Effect list \<times> (js_error + PlayerState option)" where
  "getPlayerState fetch playerId' =
     apiRequest fetch (''/player/'' @ playerId') \<lparr>initMethod = None, initBody = None\<rparr>"

definition submitGameAction ::
  "ActionResponse fetch \<Rightarrow> string \<Rightarrow> any \<Rightarrow> Effect list \<times> (js_error + ActionResponse)" where
  "submitGameAction fetch playerId' action =
     apiRequest fetch ''/action''
       \<lparr>initMethod = Some ''POST'',
        initBody = Some (Object [(''playerId'', String playerId'), (''action'', action)])\<rparr>"

definition getScenarios :: "Scenario list fetch \<Rightarrow> Effect list \<times> (js_error + Scenario list)" where
  "getScenarios fetch = apiRequest fetch ''/scenarios'' \<lparr>initMethod = None, initBody = None\<rparr>"

definition resolveSyllogismCombat ::
  "CombatOutcome fetch \<Rightarrow> string \<Rightarrow> string \<Rightarrow> bool \<Rightarrow> string \<Rightarrow> Effect list \<times> (js_error + CombatOutcome)" where
  "resolveSyllogismCombat fetch playerId' syllogismId answer enemyId' =
     apiRequest fetch ''/combat/syllogism''
       \<lparr>initMethod = Some ''POST'',
        initBody = Some (Object [(''requestPlayerId'', String playerId'),
                                 (''syllogismId'', String syllogismId),
                                 (''playerAnswer'', Boolean answer),
                                 (''enemyId'', String enemyId')])\<rparr>"

section \<open>The main game component\<close>

record AppState =
  playerState :: "PlayerState option"
  currentScenario :: "Scenario option"
  currentEnemy :: "Enemy option"
  gamePhase :: GamePhase
  sidebarCollapsed :: bool
  lastCombatResult :: "CombatOutcome option"

definition initialAppState :: AppState where
  "initialAppState =
     \<lparr>playerState = None, currentScenario = None, currentEnemy = None,
      gamePhase = Phase_character_creation, sidebarCollapsed = False, lastCombatResult = None\<rparr>"

text \<open>
  A handler runs from its call to the settling of the request it awaits in one step: it
  takes the state and returns the state after its last setter, and its effects in order.
  No other event is handled while it waits, and a request that never settles, which
  leaves the handler suspended for good, is not modelled. Neither is a body of
  \<open>/action\<close> or \<open>/combat/syllogism\<close> that is \<open>null\<close>: reading a property of it throws
  inside the \<open>try\<close> block, and the handler logs the error as it does a rejection.
\<close>

definition handleCreatePlayer ::
  "PlayerState option fetch \<Rightarrow> jsstring \<Rightarrow> PhilosophicalAlignment \<Rightarrow> AppState
     \<Rightarrow> AppState \<times> Effect list" where
  "handleCreatePlayer fetch name' alignment st =
     (case createPlayer fetch name' alignment of
        (effs, Inr newPlayer) \<Rightarrow>
          (st\<lparr>playerState := newPlayer, gamePhase := Phase_exploration\<rparr>, effs)
      | (effs, Inl error) \<Rightarrow>
          (st, effs @ [ConsoleError ''Failed to create player:'' error]))"

definition handleScenarioChoice ::
  "ActionResponse fetch \<Rightarrow> string \<Rightarrow> AppState \<Rightarrow> AppState \<times> Effect list" where
  "handleScenarioChoice fetch choiceId' st =
     (case (playerState st, currentScenario st) of
        (Some p, Some s) \<Rightarrow>
          (case submitGameAction fetch (playerId p)
                  (Object [(''type'', String ''MakeChoice''),
                           (''scenarioId'', String (scenarioId s)),
                           (''choiceId'', String choiceId')]) of
             (effs, Inr response) \<Rightarrow>
               if responseType response = String ''StateUpdate''
               then (st\<lparr>playerState := responsePlayerState response,
                        currentScenario := None,
                        gamePhase := Phase_exploration\<rparr>, effs)
               else (st, effs)
           | (effs, Inl error) \<Rightarrow>
               (st, effs @ [ConsoleError ''Failed to process choice:'' error]))
      | _ \<Rightarrow> (st, []))"

definition handleSyllogismAnswer ::
  "CombatOutcome fetch \<Rightarrow> bool \<Rightarrow> AppState \<Rightarrow> AppState \<times> Effect list" where
  "handleSyllogismAnswer fetch answer st =
     (case (playerState st, currentEnemy st) of
        (Some p, Some e) \<Rightarrow>
          (case resolveSyllogismCombat fetch (playerId p) ''current_syllogism'' answer (enemyId e) of
             (effs, Inr result) \<Rightarrow>
               (let st1 = st\<lparr>lastCombatResult := combatOutcome result,
                             playerState := updatedPlayer result\<rparr>
                in if \<not> truthy (continuesCombat result)
                   then (st1\<lparr>currentEnemy := None, gamePhase := Phase_exploration\<rparr>, effs)
                   else (st1, effs))
           | (effs, Inl error) \<Rightarrow>
               (st, effs @ [ConsoleError ''Failed to resolve combat:'' error]))
      | _ \<Rightarrow> (st, []))"

subsection \<open>Character creation\<close>

text \<open>
  The code units that \<open>String.prototype.trim\<close> strips from both ends, ECMAScript's
  WhiteSpace and LineTerminator: TAB, LF, VT, FF, CR, SPACE, the no-break space, U+1680,
  U+2000 to U+200A, the line and paragraph separators U+2028 and U+2029, U+202F, U+205F,
  U+3000 and the byte order mark U+FEFF. All of them are single code units.
\<close>

definition isWhiteSpace :: "nat \<Rightarrow> bool" where
  "isWhiteSpace c =
     (c \<in> {9, 10, 11, 12, 13, 32, 160, 5760, 8232, 8233, 8239, 8287, 12288, 65279}
      \<or> (8192 \<le> c \<and> c \<le> 8202))"

definition trim :: "jsstring \<Rightarrow> jsstring" where
  "trim s = rev (dropWhile isWhiteSpace (rev (dropWhile isWhiteSpace s)))"

text \<open>
  The key of a keyboard event is compared with three names in Basic Latin; there a
  \<open>char\<close> stands for a code point below 256, and \<open>toLowerCase\<close> moves the capital
  letters of that range.
\<close>

definition toLowerChar :: "char \<Rightarrow> char" where
  "toLowerChar c =
     (let n = (of_char c :: nat)
      in if (65 \<le> n \<and> n \<le> 90) \<or> (192 \<le> n \<and> n \<le> 222 \<and> n \<noteq> 215)
         then char_of (n + 32) else c)"

definition toLowerCase :: "string \<Rightarrow> string" where
  "toLowerCase s = map toLowerChar s"

text \<open>
  The button "Begin Journey": \<open>disabled\<close> is its attribute, \<open>onClick\<close> its handler
  \<open>() => name.trim() && handleCreatePlayer(name, selectedAlignment)\<close>. A string is
  truthy when it is not empty.
\<close>

definition beginJourney_disabled :: "jsstring \<Rightarrow> bool" where
  "beginJourney_disabled name' = (\<not> truthy (Str (trim name')))"

definition beginJourney_onClick ::
  "PlayerState option fetch \<Rightarrow> jsstring \<Rightarrow> PhilosophicalAlignment \<Rightarrow> AppState
     \<Rightarrow> AppState \<times> Effect list" where
  "beginJourney_onClick fetch name' selectedAlignment st =
     (if truthy (Str (trim name')) then handleCreatePlayer fetch name' selectedAlignment st
      else (st, []))"

subsection \<open>Sidebar and hotbar buttons\<close>

definition toggleSidebar_onClick :: "AppState \<Rightarrow> AppState \<times> Effect list" where
  "toggleSidebar_onClick st = (st\<lparr>sidebarCollapsed := \<not> sidebarCollapsed st\<rparr>, [])"

definition explore_onClick :: "AppState \<Rightarrow> AppState \<times> Effect list" where
  "explore_onClick st = (st\<lparr>gamePhase := Phase_exploration\<rparr>, [])"

definition seekChallenge_onClick :: "AppState \<Rightarrow> AppState \<times> Effect list" where
  "seekChallenge_onClick st = (st\<lparr>gamePhase := Phase_combat\<rparr>, [])"

subsection \<open>Game phase management\<close>

definition ghost_diogenes :: Enemy where
  "ghost_diogenes =
     \<lparr>enemyId = ''ghost_diogenes'',
      enemyName = ''Ghost of Diogenes the Cynic'',
      historicalFigure = ''Diogenes of Sinope (c. 412-323 BCE)'',
      representedFlaw = AdHominem,
      enemyHitPoints = 25,
      enemyMaxHitPoints = 25,
      weakness = AdHominem,
      lore = ''Ancient Greek philosopher known for rejecting social conventions through provocative behavior. In undeath, his valid criticism of society has degraded into mere personal attacks without philosophical substance.''\<rparr>"

definition trolley_problem :: Scenario where
  "trolley_problem =
     \<lparr>scenarioId = ''trolley_problem'',
      title = ''The Trolley Problem'',
      description = ''A runaway trolley is heading toward five people tied to the tracks. You can pull a lever to divert it to a side track, where it will kill one person instead. Do you pull the lever?'',
      choices =
        [\<lparr>choiceId = ''pull_lever'',
          choiceText = ''Pull the lever - save five lives by sacrificing one'',
          alignmentInfluence = Utilitarian,
          authenticityChange = 5,
          reasoning = ''Utilitarian calculus: greatest good for greatest number justifies action''\<rparr>,
         \<lparr>choiceId = ''dont_pull'',
          choiceText = ''Don'' @ [CHR 39] @ ''t pull the lever - refuse to directly cause someone'' @ [CHR 39] @ ''s death'',
          alignmentInfluence = Existentialist,
          authenticityChange = 3,
          reasoning = ''Existentialist emphasis on personal responsibility and authenticity of choice''\<rparr>,
         \<lparr>choiceId = ''walk_away'',
          choiceText = ''Walk away - none of this matters anyway'',
          alignmentInfluence = Nihilist,
          authenticityChange = 2,
          reasoning = ''Nihilistic rejection of moral frameworks as meaningless constructs''\<rparr>],
      philosophicalBasis = ''Classic thought experiment in utilitarian ethics, first introduced by philosopher Philippa Foot in 1967''\<rparr>"

text \<open>
  The double that the literal \<open>0.3\<close> denotes, the nearest one to three tenths. A draw of
  \<open>Math.random()\<close> is a double too, hence a rational, and \<open><\<close> compares exactly.
\<close>

definition encounterThreshold :: real where
  "encounterThreshold = 5404319552844595 / 18014398509481984"

text \<open>
  The \<open>keydown\<close> listener; \<open>key\<close> is \<open>event.key\<close>, \<open>draw\<close> what \<open>Math.random()\<close>
  returns if it is called.
\<close>

definition handleKeyPress :: "string \<Rightarrow> real \<Rightarrow> AppState \<Rightarrow> AppState \<times> Effect list" where
  "handleKeyPress key draw st =
     (if playerState st = None then (st, [])
      else if toLowerCase key = '' '' then
        (if gamePhase st = Phase_exploration then
           (if draw < encounterThreshold
            then (st\<lparr>currentEnemy := Some ghost_diogenes, gamePhase := Phase_combat\<rparr>, [])
            else (st\<lparr>currentScenario := Some trolley_problem, gamePhase := Phase_scenario\<rparr>, []))
         else (st, []))
      else if toLowerCase key = ''e'' then
        (if gamePhase st = Phase_exploration
         then (st, [ConsoleLog ''Examining surroundings...''])
         else (st, []))
      else if toLowerCase key = ''escape'' then
        (if gamePhase st = Phase_scenario \<or> gamePhase st = Phase_combat
         then (st\<lparr>currentScenario := None, currentEnemy := None, gamePhase := Phase_exploration\<rparr>, [])
         else (st, []))
      else (st, []))"

subsection \<open>Events of the component\<close>

text \<open>
  Every place of \<open>PhilosophicalRPG\<close> that calls a state setter, as the event that runs it.
\<close>

datatype UiEvent =
    BeginJourneyClicked jsstring PhilosophicalAlignment
  | ChoiceClicked string
  | AnswerClicked bool
  | KeyDown string real
  | SidebarToggled
  | ExploreClicked
  | SeekChallengeClicked

fun dispatch ::
  "PlayerState option fetch \<Rightarrow> ActionResponse fetch \<Rightarrow> CombatOutcome fetch \<Rightarrow> UiEvent \<Rightarrow> AppState
     \<Rightarrow> AppState \<times> Effect list" where
  "dispatch fetchP fetchA fetchC (BeginJourneyClicked name' alignment) st =
     beginJourney_onClick fetchP name' alignment st"
| "dispatch fetchP fetchA fetchC (ChoiceClicked choiceId') st = handleScenarioChoice fetchA choiceId' st"
| "dispatch fetchP fetchA fetchC (AnswerClicked answer) st = handleSyllogismAnswer fetchC answer st"
| "dispatch fetchP fetchA fetchC (KeyDown key draw) st = handleKeyPress key draw st"
| "dispatch fetchP fetchA fetchC SidebarToggled st = toggleSidebar_onClick st"
| "dispatch fetchP fetchA fetchC ExploreClicked st = explore_onClick st"
| "dispatch fetchP fetchA fetchC SeekChallengeClicked st = seekChallenge_onClick st"

section \<open>The hook useGameState\<close>

text \<open>
  The three state variables of the hook (\<open>playerState\<close>, \<open>loading\<close>, \<open>error\<close>; the
  first and last renamed, as \<open>AppState\<close> has a \<open>playerState\<close> too).
\<close>

record HookState =
  hookPlayerState :: "PlayerState option"
  loading :: bool
  hookError :: "string option"

definition initialHookState :: HookState where
  "initialHookState = \<lparr>hookPlayerState = None, loading = False, hookError = None\<rparr>"

definition refreshPlayerState ::
  "PlayerState option fetch \<Rightarrow> string option \<Rightarrow> HookState \<Rightarrow> HookState \<times> Effect list" where
  "refreshPlayerState fetch playerId' hs =
     (case playerId' of
        None \<Rightarrow> (hs, [])
      | Some pid \<Rightarrow>
          if \<not> truthy (String pid) then (hs, [])
          else
            (case getPlayerState fetch pid of
               (effs, Inr state) \<Rightarrow>
                 (hs\<lparr>hookPlayerState := state, hookError := None, loading := False\<rparr>, effs)
             | (effs, Inl err) \<Rightarrow>
                 (hs\<lparr>hookError := Some (if instanceof_Error err then message err else ''Unknown error''),
                     loading := False\<rparr>, effs)))"

section \<open>The development panel and the app wrapper\<close>

definition isDevelopment :: "string \<Rightarrow> bool" where
  "isDevelopment hostname = (hostname = ''localhost'' \<or> hostname = ''127.0.0.1'')"

text \<open>
  A quick test state is its name and its \<open>modifications\<close>, an object literal with the two
  properties \<open>philosophicalAlignment\<close> and \<open>authenticityMetric\<close>: a pair here.
\<close>

type_synonym Modifications = "PhilosophicalAlignment \<times> AuthenticityMetric"

definition quickTestStates :: "PlayerState \<Rightarrow> (string \<times> Modifications) list" where
  "quickTestStates player' =
     [(''High Authenticity Utilitarian'',
       (Utilitarian, (authenticityMetric player')\<lparr>metricValue := 95\<rparr>)),
      (''Corrupted Nihilist'',
       (Nihilist, (authenticityMetric player')\<lparr>metricValue := 25, permanentMarkers := [Hypocrite, Hedonist]\<rparr>)),
      (''Conflicted Existentialist'',
       (Existentialist, (authenticityMetric player')\<lparr>metricValue := 60\<rparr>))]"

text \<open>The object spread \<open>{ ...player, ...testState.modifications }\<close>.\<close>

definition spreadModifications :: "PlayerState \<Rightarrow> Modifications \<Rightarrow> PlayerState" where
  "spreadModifications player' modifications =
     player'\<lparr>philosophicalAlignment := fst modifications, authenticityMetric := snd modifications\<rparr>"

text \<open>
  Clicking the button of the quick test state number \<open>idx\<close>: the argument that
  \<open>onStateChange\<close> is called with, or \<open>None\<close> when the panel shows no such button
  (\<open>hostname\<close> is \<open>window.location.hostname\<close>).
\<close>

definition DevPanel_onClick :: "string \<Rightarrow> PlayerState option \<Rightarrow> bool \<Rightarrow> nat \<Rightarrow> PlayerState option" where
  "DevPanel_onClick hostname player' showDevPanel idx =
     (case player' of
        None \<Rightarrow> None
      | Some p \<Rightarrow>
          if \<not> isDevelopment hostname then None
          else if \<not> showDevPanel then None
          else if idx < length (quickTestStates p)
          then Some (spreadModifications p (snd (quickTestStates p ! idx)))
          else None)"

text \<open>The state \<open>gameState\<close> of the wrapper \<open>Game\<close> (\<open>error\<close> renamed).\<close>

record GameState =
  player :: "PlayerState option"
  currentPhase :: string
  gameError :: "string option"

definition initialGameState :: GameState where
  "initialGameState = \<lparr>player = None, currentPhase = ''character-creation'', gameError = None\<rparr>"

definition onStateChange :: "PlayerState \<Rightarrow> GameState \<Rightarrow> GameState" where
  "onStateChange newState prev = prev\<lparr>player := Some newState\<rparr>"

definition dismissError :: "GameState \<Rightarrow> GameState" where
  "dismissError prev = prev\<lparr>gameError := None\<rparr>"

text \<open>The panel as \<open>Game\<close> mounts it, with \<open>gameState.player\<close> for its \<open>player\<close>.\<close>

definition Game_devPanelClick :: "string \<Rightarrow> bool \<Rightarrow> nat \<Rightarrow> GameState \<Rightarrow> GameState" where
  "Game_devPanelClick hostname showDevPanel idx gs =
     (case DevPanel_onClick hostname (player gs) showDevPanel idx of
        None \<Rightarrow> gs
      | Some newState \<Rightarrow> onStateChange newState gs)"

text \<open>
  The events that reach the state of \<open>Game\<close>: a click on a quick test state of the
  panel, and a click on "Dismiss", a button that is there while \<open>gameState.error\<close> is
  set. The help button and the panel's own open and close buttons leave \<open>gameState\<close>
  alone.
\<close>

definition Game_dismissClick :: "GameState \<Rightarrow> GameState" where
  "Game_dismissClick gs = (if gameError gs \<noteq> None then dismissError gs else gs)"

datatype GameEvent =
    QuickTestStateClicked string bool nat
  | DismissClicked

fun gameStep :: "GameState \<Rightarrow> GameEvent \<Rightarrow> GameState" where
  "gameStep gs (QuickTestStateClicked hostname showDevPanel idx) =
     Game_devPanelClick hostname showDevPanel idx gs"
| "gameStep gs DismissClicked = Game_dismissClick gs"

section \<open>The requests the client sends\<close>

text \<open>
  The argument that \<open>apiRequest\<close> hands to \<open>fetch\<close>, and the three requests of the
  handlers, spelled out.
\<close>

definition apiRequest_request :: "string \<Rightarrow> RequestInit \<Rightarrow> Request" where
  "apiRequest_request endpoint options =
     \<lparr>url = API_BASE @ endpoint, headers = createHeaders,
      requestMethod = initMethod options, requestBody = initBody options\<rparr>"

definition createRequest :: "jsstring \<Rightarrow> PhilosophicalAlignment \<Rightarrow> Request" where
  "createRequest name' alignment =
     apiRequest_request ''/player/create''
       \<lparr>initMethod = Some ''POST'',
        initBody = Some (Object [(''playerName'', Str name'),
                                 (''initialAlignment'', String (alignmentString alignment))])\<rparr>"

definition choiceRequest :: "string \<Rightarrow> string \<Rightarrow> string \<Rightarrow> Request" where
  "choiceRequest playerId' scenarioId' choiceId' =
     \<lparr>url = API_BASE @ ''/action'', headers = createHeaders, requestMethod = Some ''POST'',
      requestBody = Some (Object [(''playerId'', String playerId'),
                                  (''action'', Object [(''type'', String ''MakeChoice''),
                                                       (''scenarioId'', String scenarioId'),
                                                       (''choiceId'', String choiceId')])])\<rparr>"

definition answerRequest :: "string \<Rightarrow> bool \<Rightarrow> string \<Rightarrow> Request" where
  "answerRequest playerId' answer enemyId' =
     \<lparr>url = API_BASE @ ''/combat/syllogism'', headers = createHeaders, requestMethod = Some ''POST'',
      requestBody = Some (Object [(''requestPlayerId'', String playerId'),
                                  (''syllogismId'', String ''current_syllogism''),
                                  (''playerAnswer'', Boolean answer),
                                  (''enemyId'', String enemyId')])\<rparr>"

section \<open>The engine behind the API\<close>

text \<open>
  The server that answers the requests is not part of the repository. What the claims say
  about it is checked against the operations below, written after sections 3, 4.1, 4.2
  and 7 of the specification.
\<close>

text \<open>
  Modelled from the spec: the taxonomy of errors of section 7, "ValidationError (bad input
  shape/empty name), NotFoundError, InvalidStateError, ConflictError".
\<close>

datatype EngineError = ValidationError | NotFoundError | InvalidStateError | ConflictError

text \<open>
  Modelled from the spec: the Player Registry's \<open>createPlayer(name, initialAlignment)\<close>,
  which the backend runs on \<open>POST /player/create\<close>. It "fails with ValidationError if
  name is empty/whitespace" and otherwise "initializes attributes to balanced defaults
  (body=mind=heart=5), hitPoints=maxHitPoints, authenticity value=50, empty
  history/markers, level=1, experience=0". The identity it gives the player and the way
  \<open>maxHitPoints\<close> is "derived from level and attributes" are left open there, and are
  parameters here.
\<close>

definition registry_createPlayer ::
  "string \<Rightarrow> (number \<Rightarrow> number \<Rightarrow> number \<Rightarrow> number \<Rightarrow> number) \<Rightarrow> jsstring \<Rightarrow> PhilosophicalAlignment
     \<Rightarrow> EngineError + PlayerState" where
  "registry_createPlayer newId deriveMaxHitPoints name' initialAlignment =
     (if list_all isWhiteSpace name' then Inl ValidationError
      else Inr \<lparr>playerId = newId, name = name', body = 5, mind = 5, heart = 5,
                hitPoints = deriveMaxHitPoints 1 5 5 5,
                maxHitPoints = deriveMaxHitPoints 1 5 5 5,
                authenticityMetric = \<lparr>metricValue = 50, history = [], permanentMarkers = []\<rparr>,
                philosophicalAlignment = initialAlignment,
                inventory = [], equippedFallacies = [],
                experience = 0, level = 1, activeEffects = []\<rparr>)"

text \<open>
  Modelled from the spec: \<open>clamp(x, 0, 100)\<close>, by which the value "stays within [0, 100]
  regardless of cumulative sum magnitude"; "applying impact -60 to a player at value 50
  yields value 0".
\<close>

definition clamp :: "number \<Rightarrow> number \<Rightarrow> number \<Rightarrow> number" where
  "clamp x lo hi = max lo (min hi x)"

text \<open>
  Modelled from the spec: the marker-trigger rules, "content-defined predicates" on the
  full history, each with the marker it awards, and the markers that a history triggers.
\<close>

type_synonym MarkerRule = "(LogEntry list \<Rightarrow> bool) \<times> PermanentMarker"

definition triggeredMarkers :: "MarkerRule list \<Rightarrow> LogEntry list \<Rightarrow> PermanentMarker list" where
  "triggeredMarkers rules entries = map snd (filter (\<lambda>rule. fst rule entries) rules)"

text \<open>
  Modelled from the spec: the Authenticity Ledger's
  \<open>applyImpact(player, amount, reason, label)\<close>, which "appends a LogEntry with current
  timestamp; recomputes value = clamp(value + amount, 0, 100); evaluates marker-trigger
  rules against the full history; never removes existing markers". \<open>now\<close> is the current
  timestamp. A marker that is triggered and not yet held is appended.
\<close>

definition applyImpact ::
  "MarkerRule list \<Rightarrow> string \<Rightarrow> PlayerState \<Rightarrow> number \<Rightarrow> string \<Rightarrow> string \<Rightarrow> AuthenticityMetric" where
  "applyImpact rules now player' amount reason' label =
     (let metric = authenticityMetric player';
          entries = history metric
            @ [\<lparr>timestamp = now, choice = label, impact = amount, reason = reason'\<rparr>]
      in \<lparr>metricValue = clamp (metricValue metric + amount) 0 100,
          history = entries,
          permanentMarkers =
            permanentMarkers metric
              @ filter (\<lambda>m. m \<notin> set (permanentMarkers metric))
                  (remdups (triggeredMarkers rules entries))\<rparr>)"

text \<open>
  Modelled from the spec: the player state that the registry holds once the ledger has
  recorded an impact ("Authenticity Ledger (record impact), Player Registry (persist
  mutated state)"), and after a sequence of impacts, each given by its timestamp, amount,
  reason and label.
\<close>

type_synonym Impact = "string \<times> number \<times> string \<times> string"

fun withImpact :: "MarkerRule list \<Rightarrow> PlayerState \<Rightarrow> Impact \<Rightarrow> PlayerState" where
  "withImpact rules player' (now, amount, reason', label) =
     player'\<lparr>authenticityMetric := applyImpact rules now player' amount reason' label\<rparr>"

text \<open>
  Modelled from the spec: the state after a sequence of impacts, the history growing
  "monotonically" by one entry with each.
\<close>

definition withImpacts :: "MarkerRule list \<Rightarrow> PlayerState \<Rightarrow> Impact list \<Rightarrow> PlayerState" where
  "withImpacts rules player' impacts = foldl (withImpact rules) player' impacts"

section \<open>Sample inputs\<close>

text \<open>
  A player, and four backends: one that answers every request with 200 and the given
  body, one that answers with an error status, one whose 200 carries no JSON, and one that
  cannot be reached.
\<close>

definition samplePlayer :: PlayerState where
  "samplePlayer =
     \<lparr>playerId = ''p1'', name = js ''Sartre'', body = 5, mind = 5, heart = 5,
      hitPoints = 20, maxHitPoints = 20,
      authenticityMetric = \<lparr>metricValue = 50, history = [], permanentMarkers = [Sophist]\<rparr>,
      philosophicalAlignment = Existentialist, inventory = [], equippedFallacies = [],
      experience = 0, level = 1, activeEffects = []\<rparr>"

definition respond :: "'a \<Rightarrow> 'a fetch" where
  "respond b = (\<lambda>request. Inr \<lparr>ok = True, status = 200, statusText = ''OK'', json = Inr b\<rparr>)"

definition failWith :: "nat \<Rightarrow> string \<Rightarrow> 'a fetch" where
  "failWith code txt =
     (\<lambda>request. Inr \<lparr>ok = False, status = code, statusText = txt,
                      json = Inl (SyntaxError ''Unexpected end of JSON input'')\<rparr>)"

definition unparsable :: "'a fetch" where
  "unparsable =
     (\<lambda>request. Inr \<lparr>ok = True, status = 200, statusText = ''OK'',
                      json = Inl (SyntaxError ''Unexpected end of JSON input'')\<rparr>)"

definition offline :: "'a fetch" where
  "offline = (\<lambda>request. Inl (TypeError ''Failed to fetch''))"

text \<open>
  Two blank names: three spaces, and an em space between a tab and a byte order mark.
\<close>

definition threeSpaces :: jsstring where
  "threeSpaces = js ''   ''"

definition wideBlank :: jsstring where
  "wideBlank = [9, 8195, 65279]"

text \<open>Bodies a backend may answer with.\<close>

definition stateUpdate :: ActionResponse where
  "stateUpdate = \<lparr>responseType = String ''StateUpdate'',
                   responsePlayerState = Some (samplePlayer\<lparr>philosophicalAlignment := Utilitarian\<rparr>)\<rparr>"

definition otherUpdate :: ActionResponse where
  "otherUpdate = \<lparr>responseType = String ''CombatStart'',
                   responsePlayerState = Some (samplePlayer\<lparr>philosophicalAlignment := Utilitarian\<rparr>)\<rparr>"

definition closingOutcome :: CombatOutcome where
  "closingOutcome =
     CombatOutcome True 25 ''Correct: the argument is invalid'' 40
       (Some (CombatOutcome True 25 ''Correct: the argument is invalid'' 40 None None Undefined))
       (Some (samplePlayer\<lparr>experience := 40\<rparr>)) (Boolean False)"

definition continuingOutcome :: CombatOutcome where
  "continuingOutcome =
     CombatOutcome False 3 ''Wrong: the argument is invalid'' 0
       (Some (CombatOutcome False 3 ''Wrong: the argument is invalid'' 0 None None Undefined))
       (Some (samplePlayer\<lparr>hitPoints := 17\<rparr>)) (Boolean True)"

definition outcomeWithoutPlayer :: CombatOutcome where
  "outcomeWithoutPlayer = CombatOutcome False 3 ''The argument is invalid'' 0 None None (Boolean True)"

text \<open>
  A run of the component from a state, and four states reached by runs from the initial
  one: after character creation, in an encounter, in a scenario, and in an encounter whose
  last answer from the backend carried no \<open>updatedPlayer\<close>.
\<close>

definition run ::
  "PlayerState option fetch \<Rightarrow> ActionResponse fetch \<Rightarrow> CombatOutcome fetch \<Rightarrow> UiEvent list
     \<Rightarrow> AppState \<Rightarrow> AppState" where
  "run fetchP fetchA fetchC evs st = foldl (\<lambda>s ev. fst (dispatch fetchP fetchA fetchC ev s)) st evs"

definition explorationState :: AppState where
  "explorationState = run (respond (Some samplePlayer)) offline offline
     [BeginJourneyClicked (js ''Sartre'') Existentialist] initialAppState"

definition combatState :: AppState where
  "combatState = run (respond (Some samplePlayer)) offline offline
     [BeginJourneyClicked (js ''Sartre'') Existentialist, KeyDown '' '' (1/10)] initialAppState"

definition scenarioState :: AppState where
  "scenarioState = run (respond (Some samplePlayer)) offline offline
     [BeginJourneyClicked (js ''Sartre'') Existentialist, KeyDown '' '' (1/2)] initialAppState"

definition strandedCombat :: AppState where
  "strandedCombat = fst (handleSyllogismAnswer (respond outcomeWithoutPlayer) True combatState)"

text \<open>
  For the ledger: a rule that awards \<open>Hypocrite\<close> once the history has three entries, and
  three impacts of the trolley problem's choices.
\<close>

definition sampleRules :: "MarkerRule list" where
  "sampleRules = [(\<lambda>entries. 3 \<le> length entries, Hypocrite)]"

definition sampleImpacts :: "Impact list" where
  "sampleImpacts =
     [(''2024-01-01T10:00:00Z'', 5, ''Utilitarian calculus'', ''pull_lever''),
      (''2024-01-01T10:05:00Z'', 3, ''Personal responsibility'', ''dont_pull''),
      (''2024-01-01T10:10:00Z'', 2, ''Rejection of moral frameworks'', ''walk_away'')]"

section \<open>Evaluation of the sample inputs\<close>

lemma js_eq_iff [simp]: "js s = js t \<longleftrightarrow> s = t"
proof
  assume "js s = js t"
  then have "map (of_char :: char \<Rightarrow> nat) s = map of_char t" by (simp add: js_def)
  moreover have "inj (of_char :: char \<Rightarrow> nat)" by (rule injI) simp
  ultimately show "s = t" by (simp add: inj_map_eq_map)
qed simp

lemma js_Nil_iff [simp]: "js s = [] \<longleftrightarrow> s = []"
  by (simp add: js_def)

lemma toLowerCase_Escape: "toLowerCase ''Escape'' = ''escape''"
  by code_simp

lemma toLowerCase_space: "toLowerCase '' '' = '' ''"
  by (simp add: toLowerCase_def toLowerChar_def)

lemma trim_threeSpaces: "trim threeSpaces = []"
  by (simp add: trim_def isWhiteSpace_def threeSpaces_def js_def)

lemma trim_wideBlank: "trim wideBlank = []"
  by (simp add: trim_def isWhiteSpace_def wideBlank_def)

lemma trim_Sartre: "trim (js ''Sartre'') = js ''Sartre''"
  by (simp add: trim_def isWhiteSpace_def js_def)

lemma show_nat_500: "show_nat 500 = ''500''"
  by code_simp

section \<open>What a request is answered with\<close>

lemma apiRequest_eq:
  "apiRequest fetch endpoint options =
     ([Fetch (apiRequest_request endpoint options)],
      (case fetch (apiRequest_request endpoint options) of
         Inl e \<Rightarrow> Inl e
       | Inr response \<Rightarrow>
           if \<not> ok response
           then Inl (Error (''API Error: '' @ show_nat (status response) @ '' '' @ statusText response))
           else json response))"
  by (simp add: apiRequest_def apiRequest_request_def Let_def)

lemma createPlayer_eq:
  "createPlayer fetch n a =
     ([Fetch (createRequest n a)],
      (case fetch (createRequest n a) of
         Inl e \<Rightarrow> Inl e
       | Inr response \<Rightarrow>
           if \<not> ok response
           then Inl (Error (''API Error: '' @ show_nat (status response) @ '' '' @ statusText response))
           else json response))"
  by (simp add: createPlayer_def createRequest_def apiRequest_eq)

lemma submitGameAction_eq:
  "submitGameAction fetch pid
     (Object [(''type'', String ''MakeChoice''), (''scenarioId'', String sid), (''choiceId'', String cid)]) =
     ([Fetch (choiceRequest pid sid cid)],
      (case fetch (choiceRequest pid sid cid) of
         Inl e \<Rightarrow> Inl e
       | Inr response \<Rightarrow>
           if \<not> ok response
           then Inl (Error (''API Error: '' @ show_nat (status response) @ '' '' @ statusText response))
           else json response))"
  by (simp add: submitGameAction_def choiceRequest_def apiRequest_eq apiRequest_request_def)

lemma resolveSyllogismCombat_eq:
  "resolveSyllogismCombat fetch pid ''current_syllogism'' answer eid =
     ([Fetch (answerRequest pid answer eid)],
      (case fetch (answerRequest pid answer eid) of
         Inl e \<Rightarrow> Inl e
       | Inr response \<Rightarrow>
           if \<not> ok response
           then Inl (Error (''API Error: '' @ show_nat (status response) @ '' '' @ statusText response))
           else json response))"
  by (simp add: resolveSyllogismCombat_def answerRequest_def apiRequest_eq apiRequest_request_def)

lemma resolve_respond:
  "snd (resolveSyllogismCombat (respond b) pid sid answer eid) = Inr b"
  by (simp add: resolveSyllogismCombat_def apiRequest_def Let_def respond_def)

lemma createPlayer_offline:
  "createPlayer offline n a = ([Fetch (createRequest n a)], Inl (TypeError ''Failed to fetch''))"
  by (simp add: createPlayer_eq offline_def)

lemma explorationState_eq:
  "explorationState = initialAppState\<lparr>playerState := Some samplePlayer, gamePhase := Phase_exploration\<rparr>"
  by (simp add: explorationState_def run_def beginJourney_onClick_def trim_Sartre
      handleCreatePlayer_def createPlayer_eq respond_def)

lemma combatState_eq:
  "combatState = initialAppState\<lparr>playerState := Some samplePlayer,
      currentEnemy := Some ghost_diogenes, gamePhase := Phase_combat\<rparr>"
  by (simp add: combatState_def run_def beginJourney_onClick_def trim_Sartre
      handleCreatePlayer_def createPlayer_eq respond_def
      handleKeyPress_def toLowerCase_space encounterThreshold_def)

lemma scenarioState_eq:
  "scenarioState = initialAppState\<lparr>playerState := Some samplePlayer,
      currentScenario := Some trolley_problem, gamePhase := Phase_scenario\<rparr>"
  by (simp add: scenarioState_def run_def beginJourney_onClick_def trim_Sartre
      handleCreatePlayer_def createPlayer_eq respond_def
      handleKeyPress_def toLowerCase_space encounterThreshold_def)

lemma strandedCombat_eq:
  "strandedCombat = initialAppState\<lparr>currentEnemy := Some ghost_diogenes, gamePhase := Phase_combat\<rparr>"
  by (simp add: strandedCombat_def combatState_eq handleSyllogismAnswer_def resolveSyllogismCombat_eq
      respond_def outcomeWithoutPlayer_def initialAppState_def)

section \<open>What each handler does to the state\<close>

lemma handleCreatePlayer_cases:
  "fetched (snd (handleCreatePlayer fetch n a st)) = [createRequest n a]
   \<and> (fst (handleCreatePlayer fetch n a st) = st
      \<or> (\<exists>response p. fetch (createRequest n a) = Inr response \<and> ok response \<and> json response = Inr p
            \<and> fst (handleCreatePlayer fetch n a st) = st\<lparr>playerState := p, gamePhase := Phase_exploration\<rparr>))"
proof (cases "fetch (createRequest n a)")
  case (Inl e)
  then show ?thesis by (simp add: handleCreatePlayer_def createPlayer_eq)
next
  case (Inr response)
  then show ?thesis
    by (cases "json response") (simp_all add: handleCreatePlayer_def createPlayer_eq)
qed

lemma handleScenarioChoice_absent:
  "playerState st = None \<or> currentScenario st = None \<Longrightarrow> handleScenarioChoice fetch c st = (st, [])"
  by (auto simp: handleScenarioChoice_def split: option.splits)

lemma handleScenarioChoice_cases:
  "playerState st = Some p \<Longrightarrow> currentScenario st = Some s \<Longrightarrow>
   fetched (snd (handleScenarioChoice fetch c st)) = [choiceRequest (playerId p) (scenarioId s) c]
   \<and> (fst (handleScenarioChoice fetch c st) = st
      \<or> (\<exists>response b. fetch (choiceRequest (playerId p) (scenarioId s) c) = Inr response \<and> ok response
            \<and> json response = Inr b \<and> responseType b = String ''StateUpdate''
            \<and> fst (handleScenarioChoice fetch c st) =
                st\<lparr>playerState := responsePlayerState b, currentScenario := None,
                   gamePhase := Phase_exploration\<rparr>))"
proof -
  assume present: "playerState st = Some p" "currentScenario st = Some s"
  show ?thesis
  proof (cases "fetch (choiceRequest (playerId p) (scenarioId s) c)")
    case (Inl e)
    with present show ?thesis by (simp add: handleScenarioChoice_def submitGameAction_eq)
  next
    case (Inr response)
    with present show ?thesis
      by (cases "json response") (simp_all add: handleScenarioChoice_def submitGameAction_eq)
  qed
qed

lemma handleSyllogismAnswer_absent:
  "playerState st = None \<or> currentEnemy st = None \<Longrightarrow> handleSyllogismAnswer fetch b st = (st, [])"
  by (auto simp: handleSyllogismAnswer_def split: option.splits)

lemma handleSyllogismAnswer_cases:
  "playerState st = Some p \<Longrightarrow> currentEnemy st = Some e \<Longrightarrow>
   fetched (snd (handleSyllogismAnswer fetch b st)) = [answerRequest (playerId p) b (enemyId e)]
   \<and> (fst (handleSyllogismAnswer fetch b st) = st
      \<or> (\<exists>response r. fetch (answerRequest (playerId p) b (enemyId e)) = Inr response \<and> ok response
            \<and> json response = Inr r
            \<and> fst (handleSyllogismAnswer fetch b st) =
                (if truthy (continuesCombat r)
                 then st\<lparr>lastCombatResult := combatOutcome r, playerState := updatedPlayer r\<rparr>
                 else st\<lparr>lastCombatResult := combatOutcome r, playerState := updatedPlayer r,
                         currentEnemy := None, gamePhase := Phase_exploration\<rparr>)))"
proof -
  assume present: "playerState st = Some p" "currentEnemy st = Some e"
  show ?thesis
  proof (cases "fetch (answerRequest (playerId p) b (enemyId e))")
    case (Inl err)
    with present show ?thesis by (simp add: handleSyllogismAnswer_def resolveSyllogismCombat_eq)
  next
    case (Inr response)
    with present show ?thesis
      by (cases "json response")
         (simp_all add: handleSyllogismAnswer_def resolveSyllogismCombat_eq Let_def)
  qed
qed

lemma handleKeyPress_cases:
  "snd (handleKeyPress key draw st) \<in> {[], [ConsoleLog ''Examining surroundings...'']}
   \<and> fst (handleKeyPress key draw st) \<in>
       {st,
        st\<lparr>currentEnemy := Some ghost_diogenes, gamePhase := Phase_combat\<rparr>,
        st\<lparr>currentScenario := Some trolley_problem, gamePhase := Phase_scenario\<rparr>,
        st\<lparr>currentScenario := None, currentEnemy := None, gamePhase := Phase_exploration\<rparr>}"
  by (simp add: handleKeyPress_def)

lemma dispatch_new_enemy:
  "currentEnemy (fst (dispatch fetchP fetchA fetchC ev s0)) = Some e \<Longrightarrow> currentEnemy s0 \<noteq> Some e \<Longrightarrow>
   e = ghost_diogenes \<and> gamePhase (fst (dispatch fetchP fetchA fetchC ev s0)) = Phase_combat"
  by (cases ev)
     (auto simp: beginJourney_onClick_def handleCreatePlayer_def handleScenarioChoice_def
        handleSyllogismAnswer_def handleKeyPress_def toggleSidebar_onClick_def explore_onClick_def
        seekChallenge_onClick_def Let_def
        split: if_splits option.splits sum.splits prod.splits)

text \<open>An event that sends no request.\<close>

lemma dispatch_without_request:
  "fetched (snd (dispatch fetchP fetchA fetchC ev st)) = [] \<Longrightarrow>
   fst (dispatch fetchP fetchA fetchC ev st) \<in>
     {st,
      st\<lparr>sidebarCollapsed := \<not> sidebarCollapsed st\<rparr>,
      st\<lparr>gamePhase := Phase_exploration\<rparr>,
      st\<lparr>gamePhase := Phase_combat\<rparr>,
      st\<lparr>currentEnemy := Some ghost_diogenes, gamePhase := Phase_combat\<rparr>,
      st\<lparr>currentScenario := Some trolley_problem, gamePhase := Phase_scenario\<rparr>,
      st\<lparr>currentScenario := None, currentEnemy := None, gamePhase := Phase_exploration\<rparr>}"
proof (cases ev)
  case (BeginJourneyClicked n a)
  assume "fetched (snd (dispatch fetchP fetchA fetchC ev st)) = []"
  with BeginJourneyClicked handleCreatePlayer_cases [of fetchP n a st] show ?thesis
    by (simp add: beginJourney_onClick_def split: if_splits)
next
  case (ChoiceClicked c)
  assume silent: "fetched (snd (dispatch fetchP fetchA fetchC ev st)) = []"
  have "playerState st = None \<or> currentScenario st = None"
  proof (rule ccontr)
    assume "\<not> (playerState st = None \<or> currentScenario st = None)"
    then obtain p s where "playerState st = Some p" "currentScenario st = Some s" by auto
    from handleScenarioChoice_cases [OF this, of fetchA c] silent ChoiceClicked
    show False by simp
  qed
  with ChoiceClicked show ?thesis by (simp add: handleScenarioChoice_absent)
next
  case (AnswerClicked b)
  assume silent: "fetched (snd (dispatch fetchP fetchA fetchC ev st)) = []"
  have "playerState st = None \<or> currentEnemy st = None"
  proof (rule ccontr)
    assume "\<not> (playerState st = None \<or> currentEnemy st = None)"
    then obtain p e where "playerState st = Some p" "currentEnemy st = Some e" by auto
    from handleSyllogismAnswer_cases [OF this, of fetchC b] silent AnswerClicked
    show False by simp
  qed
  with AnswerClicked show ?thesis by (simp add: handleSyllogismAnswer_absent)
next
  case (KeyDown k d)
  with handleKeyPress_cases [of k d st] show ?thesis by auto
qed (simp_all add: toggleSidebar_onClick_def explore_onClick_def seekChallenge_onClick_def)

lemma dispatch_without_request_keeps:
  "fetched (snd (dispatch fetchP fetchA fetchC ev st)) = [] \<Longrightarrow>
   playerState (fst (dispatch fetchP fetchA fetchC ev st)) = playerState st
   \<and> lastCombatResult (fst (dispatch fetchP fetchA fetchC ev st)) = lastCombatResult st"
  by (drule dispatch_without_request) auto

text \<open>An event that sends one.\<close>

lemma dispatch_with_request:
  "fetched (snd (dispatch fetchP fetchA fetchC ev st)) \<noteq> [] \<Longrightarrow>
   \<exists>request. fetched (snd (dispatch fetchP fetchA fetchC ev st)) = [request]
     \<and> (fst (dispatch fetchP fetchA fetchC ev st) = st
        \<or> (\<exists>n a response p. request = createRequest n a \<and> trim n \<noteq> []
              \<and> fetchP request = Inr response \<and> ok response \<and> json response = Inr p
              \<and> fst (dispatch fetchP fetchA fetchC ev st) =
                  st\<lparr>playerState := p, gamePhase := Phase_exploration\<rparr>)
        \<or> (\<exists>pid sid cid response b. request = choiceRequest pid sid cid
              \<and> fetchA request = Inr response \<and> ok response \<and> json response = Inr b
              \<and> responseType b = String ''StateUpdate''
              \<and> fst (dispatch fetchP fetchA fetchC ev st) =
                  st\<lparr>playerState := responsePlayerState b, currentScenario := None,
                     gamePhase := Phase_exploration\<rparr>)
        \<or> (\<exists>pid answer eid response r. request = answerRequest pid answer eid
              \<and> fetchC request = Inr response \<and> ok response \<and> json response = Inr r
              \<and> fst (dispatch fetchP fetchA fetchC ev st) =
                  (if truthy (continuesCombat r)
                   then st\<lparr>lastCombatResult := combatOutcome r, playerState := updatedPlayer r\<rparr>
                   else st\<lparr>lastCombatResult := combatOutcome r, playerState := updatedPlayer r,
                           currentEnemy := None, gamePhase := Phase_exploration\<rparr>)))"
proof (cases ev)
  case (BeginJourneyClicked n a)
  assume sent: "fetched (snd (dispatch fetchP fetchA fetchC ev st)) \<noteq> []"
  with BeginJourneyClicked have named: "trim n \<noteq> []"
    by (simp add: beginJourney_onClick_def split: if_splits)
  with BeginJourneyClicked have same:
    "dispatch fetchP fetchA fetchC ev st = handleCreatePlayer fetchP n a st"
    by (simp add: beginJourney_onClick_def)
  from handleCreatePlayer_cases [of fetchP n a st] named show ?thesis
    unfolding same by blast
next
  case (ChoiceClicked c)
  assume sent: "fetched (snd (dispatch fetchP fetchA fetchC ev st)) \<noteq> []"
  with ChoiceClicked obtain p s where present: "playerState st = Some p" "currentScenario st = Some s"
    by (cases "playerState st"; cases "currentScenario st") (simp_all add: handleScenarioChoice_absent)
  from ChoiceClicked have same:
    "dispatch fetchP fetchA fetchC ev st = handleScenarioChoice fetchA c st" by simp
  from handleScenarioChoice_cases [OF present, of fetchA c] show ?thesis
    unfolding same by blast
next
  case (AnswerClicked b)
  assume sent: "fetched (snd (dispatch fetchP fetchA fetchC ev st)) \<noteq> []"
  with AnswerClicked obtain p e where present: "playerState st = Some p" "currentEnemy st = Some e"
    by (cases "playerState st"; cases "currentEnemy st") (simp_all add: handleSyllogismAnswer_absent)
  from AnswerClicked have same:
    "dispatch fetchP fetchA fetchC ev st = handleSyllogismAnswer fetchC b st" by simp
  from handleSyllogismAnswer_cases [OF present, of fetchC b] show ?thesis
    unfolding same by blast
next
  case (KeyDown k d)
  assume "fetched (snd (dispatch fetchP fetchA fetchC ev st)) \<noteq> []"
  with KeyDown handleKeyPress_cases [of k d st] show ?thesis by auto
qed (simp_all add: toggleSidebar_onClick_def explore_onClick_def seekChallenge_onClick_def)

section \<open>The development panel as it is mounted\<close>

lemma gameStep_player:
  "player gs = None \<Longrightarrow> player (gameStep gs ev) = None"
  by (cases ev)
     (simp_all add: Game_devPanelClick_def DevPanel_onClick_def Game_dismissClick_def dismissError_def)

lemma Game_player_stays_null:
  "player gs = None \<Longrightarrow> player (foldl gameStep gs evs) = None"
  by (induction evs arbitrary: gs) (simp_all add: gameStep_player)

lemma Game_player_always_null:
  "player (foldl gameStep initialGameState evs) = None"
  by (rule Game_player_stays_null) (simp add: initialGameState_def)

section \<open>Blank names\<close>

lemma trim_empty_iff: "trim s = [] \<longleftrightarrow> list_all isWhiteSpace s"
proof
  assume "trim s = []"
  then have rest: "\<forall>c \<in> set (dropWhile isWhiteSpace s). isWhiteSpace c"
    by (simp add: trim_def dropWhile_eq_Nil_conv)
  have "dropWhile isWhiteSpace s = []"
  proof (rule ccontr)
    assume nonempty: "dropWhile isWhiteSpace s \<noteq> []"
    then have "\<not> isWhiteSpace (hd (dropWhile isWhiteSpace s))" by (rule hd_dropWhile)
    moreover from nonempty have "hd (dropWhile isWhiteSpace s) \<in> set (dropWhile isWhiteSpace s)"
      by simp
    ultimately show False using rest by blast
  qed
  then show "list_all isWhiteSpace s"
    by (simp add: dropWhile_eq_Nil_conv list_all_iff)
next
  assume "list_all isWhiteSpace s"
  then have blank: "dropWhile isWhiteSpace s = []"
    by (simp add: dropWhile_eq_Nil_conv list_all_iff)
  show "trim s = []" unfolding trim_def blank by simp
qed

lemma createRequest_name:
  "createRequest n a = createRequest n' a' \<Longrightarrow> n = n'"
  by (simp add: createRequest_def apiRequest_request_def)

lemma request_urls:
  "url (createRequest n a) = API_BASE @ ''/player/create''"
  "url (choiceRequest pid sid cid) = API_BASE @ ''/action''"
  "url (answerRequest pid answer eid) = API_BASE @ ''/combat/syllogism''"
  by (simp_all add: createRequest_def apiRequest_request_def choiceRequest_def answerRequest_def)

lemma createRequest_only_named:
  "createRequest n a \<in> set (fetched (snd (dispatch fetchP fetchA fetchC ev st))) \<Longrightarrow> trim n \<noteq> []"
proof -
  assume sent: "createRequest n a \<in> set (fetched (snd (dispatch fetchP fetchA fetchC ev st)))"
  then have "fetched (snd (dispatch fetchP fetchA fetchC ev st)) \<noteq> []" by auto
  from dispatch_with_request [OF this] obtain request where
    one: "fetched (snd (dispatch fetchP fetchA fetchC ev st)) = [request]" by blast
  with sent have request: "request = createRequest n a" by simp
  show ?thesis
  proof (cases ev)
    case (BeginJourneyClicked n' a')
    with one have named: "trim n' \<noteq> []"
      by (auto simp: beginJourney_onClick_def split: if_splits)
    with BeginJourneyClicked one request handleCreatePlayer_cases [of fetchP n' a' st]
    have "createRequest n a = createRequest n' a'"
      by (simp add: beginJourney_onClick_def)
    with named show ?thesis by (auto dest: createRequest_name)
  next
    case (ChoiceClicked c)
    with one obtain p s where present: "playerState st = Some p" "currentScenario st = Some s"
      by (cases "playerState st"; cases "currentScenario st") (simp_all add: handleScenarioChoice_absent)
    from handleScenarioChoice_cases [OF present, of fetchA c] ChoiceClicked one request
    have "createRequest n a = choiceRequest (playerId p) (scenarioId s) c" by simp
    then have "url (createRequest n a) = url (choiceRequest (playerId p) (scenarioId s) c)" by simp
    then show ?thesis by (simp add: request_urls)
  next
    case (AnswerClicked b)
    with one obtain p e where present: "playerState st = Some p" "currentEnemy st = Some e"
      by (cases "playerState st"; cases "currentEnemy st") (simp_all add: handleSyllogismAnswer_absent)
    from handleSyllogismAnswer_cases [OF present, of fetchC b] AnswerClicked one request
    have "createRequest n a = answerRequest (playerId p) b (enemyId e)" by simp
    then have "url (createRequest n a) = url (answerRequest (playerId p) b (enemyId e))" by simp
    then show ?thesis by (simp add: request_urls)
  next
    case (KeyDown k d)
    with one handleKeyPress_cases [of k d st] show ?thesis by auto
  qed (use one in \<open>simp_all add: toggleSidebar_onClick_def explore_onClick_def seekChallenge_onClick_def\<close>)
qed

section \<open>The ledger\<close>

lemma applyImpact_markers:
  "set (permanentMarkers (authenticityMetric p)) \<subseteq> set (permanentMarkers (applyImpact rules now p amount r l))"
  by (simp add: applyImpact_def Let_def)

lemma applyImpact_history:
  "length (history (applyImpact rules now p amount r l)) = Suc (length (history (authenticityMetric p)))"
  by (simp add: applyImpact_def Let_def)

lemma applyImpact_triggered:
  "set (triggeredMarkers rules (history (applyImpact rules now p amount r l)))
     \<subseteq> set (permanentMarkers (applyImpact rules now p amount r l))"
  by (auto simp: applyImpact_def Let_def)

lemma withImpacts_markers:
  "set (permanentMarkers (authenticityMetric p))
     \<subseteq> set (permanentMarkers (authenticityMetric (withImpacts rules p impacts)))"
proof (induction impacts arbitrary: p)
  case Nil
  show ?case by (simp add: withImpacts_def)
next
  case (Cons i impacts)
  obtain now amount r l where i: "i = (now, amount, r, l)" by (cases i)
  have "set (permanentMarkers (authenticityMetric p))
      \<subseteq> set (permanentMarkers (authenticityMetric (withImpact rules p i)))"
    by (simp add: i applyImpact_markers)
  also have "\<dots> \<subseteq> set (permanentMarkers
      (authenticityMetric (withImpacts rules (withImpact rules p i) impacts)))"
    by (rule Cons.IH)
  finally show ?case by (simp add: withImpacts_def)
qed

lemma withImpacts_history:
  "length (history (authenticityMetric (withImpacts rules p impacts)))
     = length (history (authenticityMetric p)) + length impacts"
proof (induction impacts arbitrary: p)
  case Nil
  show ?case by (simp add: withImpacts_def)
next
  case (Cons i impacts)
  obtain now amount r l where i: "i = (now, amount, r, l)" by (cases i)
  have "length (history (authenticityMetric (withImpact rules p i)))
      = Suc (length (history (authenticityMetric p)))"
    by (simp add: i applyImpact_history)
  with Cons.IH [of "withImpact rules p i"] show ?case by (simp add: withImpacts_def)
qed

section \<open>C1: what the client changes by itself\<close>

text \<open>
  The claim that the client only renders state and relays intents, and that no health
  total is set on the client, fails in the exploration phase: the spacebar, with a draw of
  one tenth, starts a combat against an enemy of 25 hit points that the client builds, and
  the button "Seek Challenge" sets the combat phase. Neither sends a request.
\<close>

theorem client_changes_state_without_backend:
  "playerState explorationState = Some samplePlayer
   \<and> handleKeyPress '' '' (1/10) explorationState =
       (explorationState\<lparr>currentEnemy := Some ghost_diogenes, gamePhase := Phase_combat\<rparr>, [])
   \<and> enemyHitPoints ghost_diogenes = 25
   \<and> dispatch offline offline offline SeekChallengeClicked explorationState =
       (explorationState\<lparr>gamePhase := Phase_combat\<rparr>, [])"
proof -
  have held: "playerState explorationState = Some samplePlayer"
    by (simp add: explorationState_eq)
  have encounter: "handleKeyPress '' '' (1/10) explorationState =
       (explorationState\<lparr>currentEnemy := Some ghost_diogenes, gamePhase := Phase_combat\<rparr>, [])"
    by (simp add: handleKeyPress_def toLowerCase_space explorationState_eq encounterThreshold_def)
  have ghost: "enemyHitPoints ghost_diogenes = 25"
    by (simp add: ghost_diogenes_def)
  have seek: "dispatch offline offline offline SeekChallengeClicked explorationState =
       (explorationState\<lparr>gamePhase := Phase_combat\<rparr>, [])"
    by (simp add: seekChallenge_onClick_def)
  from held encounter ghost seek show ?thesis by simp
qed

text \<open>
  C1, amended. An event that \<open>PhilosophicalRPG\<close> handles sends no request or one. If it
  sends none, \<open>playerState\<close> and \<open>lastCombatResult\<close> stay, and the state after it is the
  state before with one of these changes: none; the sidebar toggled; the phase set to
  exploration (Explore) or to combat (Seek Challenge); the constant ghost put into
  \<open>currentEnemy\<close> with the phase combat, or the constant trolley problem into
  \<open>currentScenario\<close> with the phase scenario (spacebar); scenario and enemy cleared with
  the phase exploration (Escape). If it sends one, the state after it is the state before,
  or what an ok answer to that request tells: for \<open>/player/create\<close> the body as
  \<open>playerState\<close> and the phase exploration; for \<open>/action\<close> with the tag \<open>StateUpdate\<close>
  the body's \<open>playerState\<close>, no scenario and the phase exploration; for
  \<open>/combat/syllogism\<close> the body's \<open>updatedPlayer\<close> and \<open>combatOutcome\<close>, and, unless
  \<open>continuesCombat\<close> is truthy, no enemy and the phase exploration. So every change of
  \<open>playerState\<close> and of \<open>lastCombatResult\<close> is an answer of the backend, and no field of
  a player, an enemy or a verdict is computed by the client. In \<open>Game\<close> as it is mounted
  the development panel holds no player after any events, so that its quick test states
  are never applied.
\<close>

theorem client_state_changes:
  "dispatch fetchP fetchA fetchC ev st = (st', effs) \<Longrightarrow>
   (fetched effs = [] \<longrightarrow>
      playerState st' = playerState st \<and> lastCombatResult st' = lastCombatResult st
      \<and> st' \<in>
          {st,
           st\<lparr>sidebarCollapsed := \<not> sidebarCollapsed st\<rparr>,
           st\<lparr>gamePhase := Phase_exploration\<rparr>,
           st\<lparr>gamePhase := Phase_combat\<rparr>,
           st\<lparr>currentEnemy := Some ghost_diogenes, gamePhase := Phase_combat\<rparr>,
           st\<lparr>currentScenario := Some trolley_problem, gamePhase := Phase_scenario\<rparr>,
           st\<lparr>currentScenario := None, currentEnemy := None, gamePhase := Phase_exploration\<rparr>})
   \<and> (fetched effs \<noteq> [] \<longrightarrow>
      (\<exists>request. fetched effs = [request]
         \<and> (st' = st
            \<or> (\<exists>n a response p. request = createRequest n a \<and> trim n \<noteq> []
                  \<and> fetchP request = Inr response \<and> ok response \<and> json response = Inr p
                  \<and> st' = st\<lparr>playerState := p, gamePhase := Phase_exploration\<rparr>)
            \<or> (\<exists>pid sid cid response b. request = choiceRequest pid sid cid
                  \<and> fetchA request = Inr response \<and> ok response \<and> json response = Inr b
                  \<and> responseType b = String ''StateUpdate''
                  \<and> st' = st\<lparr>playerState := responsePlayerState b, currentScenario := None,
                             gamePhase := Phase_exploration\<rparr>)
            \<or> (\<exists>pid answer eid response r. request = answerRequest pid answer eid
                  \<and> fetchC request = Inr response \<and> ok response \<and> json response = Inr r
                  \<and> st' =
                      (if truthy (continuesCombat r)
                       then st\<lparr>lastCombatResult := combatOutcome r, playerState := updatedPlayer r\<rparr>
                       else st\<lparr>lastCombatResult := combatOutcome r, playerState := updatedPlayer r,
                               currentEnemy := None, gamePhase := Phase_exploration\<rparr>)))))
   \<and> player (foldl gameStep initialGameState evs) = None"
proof -
  assume step: "dispatch fetchP fetchA fetchC ev st = (st', effs)"
  then have after: "fst (dispatch fetchP fetchA fetchC ev st) = st'"
    and sent: "snd (dispatch fetchP fetchA fetchC ev st) = effs"
    by simp_all
  show ?thesis
    using dispatch_without_request [of fetchP fetchA fetchC ev st]
      dispatch_without_request_keeps [of fetchP fetchA fetchC ev st]
      dispatch_with_request [of fetchP fetchA fetchC ev st]
      Game_player_always_null [of evs]
    unfolding after sent by blast
qed

theorem client_state_changes_witness:
  "dispatch offline offline offline SeekChallengeClicked explorationState =
     (explorationState\<lparr>gamePhase := Phase_combat\<rparr>, [])
   \<and> fetched [] = []
   \<and> playerState (explorationState\<lparr>gamePhase := Phase_combat\<rparr>) = playerState explorationState
   \<and> dispatch (respond (Some samplePlayer)) offline offline
        (BeginJourneyClicked (js ''Sartre'') Existentialist) initialAppState =
       (initialAppState\<lparr>playerState := Some samplePlayer, gamePhase := Phase_exploration\<rparr>,
        [Fetch (createRequest (js ''Sartre'') Existentialist)])
   \<and> fetched [Fetch (createRequest (js ''Sartre'') Existentialist)] \<noteq> []
   \<and> player (foldl gameStep initialGameState
        [QuickTestStateClicked ''localhost'' True 0, DismissClicked]) = None"
proof -
  have seek: "dispatch offline offline offline SeekChallengeClicked explorationState =
     (explorationState\<lparr>gamePhase := Phase_combat\<rparr>, [])"
    by (simp add: seekChallenge_onClick_def)
  have create: "dispatch (respond (Some samplePlayer)) offline offline
        (BeginJourneyClicked (js ''Sartre'') Existentialist) initialAppState =
       (initialAppState\<lparr>playerState := Some samplePlayer, gamePhase := Phase_exploration\<rparr>,
        [Fetch (createRequest (js ''Sartre'') Existentialist)])"
    by (simp add: beginJourney_onClick_def trim_Sartre handleCreatePlayer_def createPlayer_eq
        respond_def)
  from client_state_changes [OF seek, of "[QuickTestStateClicked ''localhost'' True 0, DismissClicked]"]
    client_state_changes [OF create, of "[]"] seek create
  show ?thesis by simp
qed

section \<open>C2: the syllogism id of a combat answer\<close>

text \<open>
  C2. Every request that \<open>handleSyllogismAnswer\<close> sends, for any answer and any state, is
  a POST to \<open>/combat/syllogism\<close> whose body has the string \<open>current_syllogism\<close> as its
  \<open>syllogismId\<close>; with a player and an enemy present it sends exactly one.
\<close>

theorem syllogism_id_is_placeholder:
  "(\<forall>request \<in> set (fetched (snd (handleSyllogismAnswer fetch answer st))).
      url request = API_BASE @ ''/combat/syllogism''
      \<and> requestMethod request = Some ''POST''
      \<and> map_option (getProp ''syllogismId'') (requestBody request) = Some (String ''current_syllogism''))
   \<and> (playerState st \<noteq> None \<and> currentEnemy st \<noteq> None
        \<longrightarrow> length (fetched (snd (handleSyllogismAnswer fetch answer st))) = 1)"
  by (auto simp: handleSyllogismAnswer_def resolveSyllogismCombat_def apiRequest_def Let_def
           split: option.splits sum.splits prod.splits)

theorem syllogism_id_is_placeholder_witness:
  "playerState combatState \<noteq> None \<and> currentEnemy combatState \<noteq> None
   \<and> fetched (snd (handleSyllogismAnswer (respond closingOutcome) False combatState)) =
       [\<lparr>url = ''http://localhost:8080/api/combat/syllogism'', headers = createHeaders,
         requestMethod = Some ''POST'',
         requestBody = Some (Object [(''requestPlayerId'', String ''p1''),
                                     (''syllogismId'', String ''current_syllogism''),
                                     (''playerAnswer'', Boolean False),
                                     (''enemyId'', String ''ghost_diogenes'')])\<rparr>]
   \<and> map (\<lambda>request. map_option (getProp ''syllogismId'') (requestBody request))
         (fetched (snd (handleSyllogismAnswer (respond closingOutcome) False combatState)))
       = [Some (String ''current_syllogism'')]"
  using syllogism_id_is_placeholder [of "respond closingOutcome" False combatState]
  by (simp add: combatState_eq initialAppState_def handleSyllogismAnswer_def resolveSyllogismCombat_def
      apiRequest_def Let_def respond_def closingOutcome_def samplePlayer_def ghost_diogenes_def API_BASE_def)

section \<open>C3: applying the result of a combat turn\<close>

text \<open>
  C3. When the combat request resolves with \<open>result\<close>, \<open>playerState\<close> becomes its
  \<open>updatedPlayer\<close> and \<open>lastCombatResult\<close> its \<open>combatOutcome\<close>. If \<open>continuesCombat\<close> is
  false, \<open>currentEnemy\<close> becomes null and the phase exploration; if it is true, enemy and
  phase are the ones before the call. Nothing else changes.
\<close>

theorem combat_resolution_applied:
  "playerState st = Some p \<Longrightarrow> currentEnemy st = Some e \<Longrightarrow>
   snd (resolveSyllogismCombat fetch (playerId p) ''current_syllogism'' answer (enemyId e)) = Inr result \<Longrightarrow>
   playerState (fst (handleSyllogismAnswer fetch answer st)) = updatedPlayer result
   \<and> lastCombatResult (fst (handleSyllogismAnswer fetch answer st)) = combatOutcome result
   \<and> (continuesCombat result = Boolean False \<longrightarrow>
        fst (handleSyllogismAnswer fetch answer st) =
          st\<lparr>lastCombatResult := combatOutcome result, playerState := updatedPlayer result,
             currentEnemy := None, gamePhase := Phase_exploration\<rparr>)
   \<and> (continuesCombat result = Boolean True \<longrightarrow>
        fst (handleSyllogismAnswer fetch answer st) =
          st\<lparr>lastCombatResult := combatOutcome result, playerState := updatedPlayer result\<rparr>
        \<and> currentEnemy (fst (handleSyllogismAnswer fetch answer st)) = currentEnemy st
        \<and> gamePhase (fst (handleSyllogismAnswer fetch answer st)) = gamePhase st)"
  by (cases "resolveSyllogismCombat fetch (playerId p) ''current_syllogism'' answer (enemyId e)")
     (simp add: handleSyllogismAnswer_def Let_def)

theorem combat_resolution_applied_witness:
  "playerState combatState = Some samplePlayer \<and> currentEnemy combatState = Some ghost_diogenes
   \<and> continuesCombat closingOutcome = Boolean False
   \<and> fst (handleSyllogismAnswer (respond closingOutcome) False combatState) =
       combatState\<lparr>lastCombatResult := combatOutcome closingOutcome,
                    playerState := Some (samplePlayer\<lparr>experience := 40\<rparr>),
                    currentEnemy := None, gamePhase := Phase_exploration\<rparr>
   \<and> continuesCombat continuingOutcome = Boolean True
   \<and> fst (handleSyllogismAnswer (respond continuingOutcome) True combatState) =
       combatState\<lparr>lastCombatResult := combatOutcome continuingOutcome,
                    playerState := Some (samplePlayer\<lparr>hitPoints := 17\<rparr>)\<rparr>
   \<and> currentEnemy (fst (handleSyllogismAnswer (respond continuingOutcome) True combatState)) = Some ghost_diogenes
   \<and> gamePhase (fst (handleSyllogismAnswer (respond continuingOutcome) True combatState)) = Phase_combat"
proof -
  have player: "playerState combatState = Some samplePlayer"
    and enemy: "currentEnemy combatState = Some ghost_diogenes"
    and phase: "gamePhase combatState = Phase_combat"
    by (simp_all add: combatState_eq initialAppState_def)
  have closing: "continuesCombat closingOutcome = Boolean False"
    and closingPlayer: "updatedPlayer closingOutcome = Some (samplePlayer\<lparr>experience := 40\<rparr>)"
    by (simp_all add: closingOutcome_def)
  have continuing: "continuesCombat continuingOutcome = Boolean True"
    and continuingPlayer: "updatedPlayer continuingOutcome = Some (samplePlayer\<lparr>hitPoints := 17\<rparr>)"
    by (simp_all add: continuingOutcome_def)
  note closed = combat_resolution_applied [OF player enemy resolve_respond,
      of closingOutcome False]
  note continued = combat_resolution_applied [OF player enemy resolve_respond,
      of continuingOutcome True]
  show ?thesis
    using closed continued player enemy phase closing continuing closingPlayer continuingPlayer
    by simp
qed

section \<open>C4: failed requests\<close>

text \<open>
  The claim that every caller only logs a failed request fails at the hook
  \<open>useGameState\<close>: on a 500, \<open>refreshPlayerState\<close> stores the message of the error in the
  state variable \<open>error\<close> and logs nothing.
\<close>

theorem refresh_stores_error_without_logging:
  "refreshPlayerState (failWith 500 ''Internal Server Error'') (Some ''p1'') initialHookState =
     (initialHookState\<lparr>hookError := Some ''API Error: 500 Internal Server Error''\<rparr>,
      [Fetch \<lparr>url = ''http://localhost:8080/api/player/p1'', headers = createHeaders,
              requestMethod = None, requestBody = None\<rparr>])"
  by (simp add: refreshPlayerState_def getPlayerState_def apiRequest_def Let_def failWith_def
      initialHookState_def API_BASE_def show_nat_500)

text \<open>
  C4, amended. When \<open>fetch\<close> resolves with a response that is not ok, \<open>apiRequest\<close>
  rejects with an \<open>Error\<close> whose message is made of \<open>status\<close> and \<open>statusText\<close> alone;
  when the response is ok it settles as \<open>response.json()\<close> does, to the parsed body or to
  the parser's error; when \<open>fetch\<close> rejects, so does \<open>apiRequest\<close>. The three handlers of
  \<open>PhilosophicalRPG\<close> catch any rejection, log it once with \<open>console.error\<close> and leave
  the state as it was. \<open>refreshPlayerState\<close> catches it too, but stores its message and
  clears \<open>loading\<close> instead of logging.
\<close>

theorem apiRequest_rejects_non_ok_and_handlers_log:
  "(fetch (apiRequest_request endpoint options) = Inr response \<and> \<not> ok response \<longrightarrow>
      snd (apiRequest fetch endpoint options) =
        Inl (Error (''API Error: '' @ show_nat (status response) @ '' '' @ statusText response)))
   \<and> (fetch (apiRequest_request endpoint options) = Inr response \<and> ok response \<longrightarrow>
      snd (apiRequest fetch endpoint options) = json response)
   \<and> (fetch (apiRequest_request endpoint options) = Inl rejection \<longrightarrow>
      snd (apiRequest fetch endpoint options) = Inl rejection)
   \<and> (\<forall>err. snd (createPlayer fetchP name' alignment) = Inl err \<longrightarrow>
      handleCreatePlayer fetchP name' alignment st =
        (st, fst (createPlayer fetchP name' alignment) @ [ConsoleError ''Failed to create player:'' err]))
   \<and> (\<forall>effs err. playerState st = Some p \<and> currentScenario st = Some s
      \<and> submitGameAction fetchA (playerId p)
           (Object [(''type'', String ''MakeChoice''), (''scenarioId'', String (scenarioId s)),
                    (''choiceId'', String choiceId')]) = (effs, Inl err) \<longrightarrow>
      handleScenarioChoice fetchA choiceId' st =
        (st, effs @ [ConsoleError ''Failed to process choice:'' err]))
   \<and> (\<forall>effs err. playerState st = Some p \<and> currentEnemy st = Some e
      \<and> resolveSyllogismCombat fetchC (playerId p) ''current_syllogism'' answer (enemyId e)
           = (effs, Inl err) \<longrightarrow>
      handleSyllogismAnswer fetchC answer st =
        (st, effs @ [ConsoleError ''Failed to resolve combat:'' err]))
   \<and> (\<forall>effs err. pid \<noteq> [] \<and> getPlayerState fetchP pid = (effs, Inl err) \<longrightarrow>
      refreshPlayerState fetchP (Some pid) hs =
        (hs\<lparr>hookError := Some (message err), loading := False\<rparr>, effs))"
proof -
  have api:
    "fetch (apiRequest_request endpoint options) = Inr response \<and> \<not> ok response \<longrightarrow>
      snd (apiRequest fetch endpoint options) =
        Inl (Error (''API Error: '' @ show_nat (status response) @ '' '' @ statusText response))"
    "fetch (apiRequest_request endpoint options) = Inr response \<and> ok response \<longrightarrow>
      snd (apiRequest fetch endpoint options) = json response"
    "fetch (apiRequest_request endpoint options) = Inl rejection \<longrightarrow>
      snd (apiRequest fetch endpoint options) = Inl rejection"
    by (simp_all add: apiRequest_def apiRequest_request_def Let_def)
  have create:
    "\<forall>err. snd (createPlayer fetchP name' alignment) = Inl err \<longrightarrow>
      handleCreatePlayer fetchP name' alignment st =
        (st, fst (createPlayer fetchP name' alignment) @ [ConsoleError ''Failed to create player:'' err])"
    by (cases "createPlayer fetchP name' alignment") (simp add: handleCreatePlayer_def)
  have choice:
    "\<forall>effs err. playerState st = Some p \<and> currentScenario st = Some s
      \<and> submitGameAction fetchA (playerId p)
           (Object [(''type'', String ''MakeChoice''), (''scenarioId'', String (scenarioId s)),
                    (''choiceId'', String choiceId')]) = (effs, Inl err) \<longrightarrow>
      handleScenarioChoice fetchA choiceId' st =
        (st, effs @ [ConsoleError ''Failed to process choice:'' err])"
    by (simp add: handleScenarioChoice_def)
  have combat:
    "\<forall>effs err. playerState st = Some p \<and> currentEnemy st = Some e
      \<and> resolveSyllogismCombat fetchC (playerId p) ''current_syllogism'' answer (enemyId e)
           = (effs, Inl err) \<longrightarrow>
      handleSyllogismAnswer fetchC answer st =
        (st, effs @ [ConsoleError ''Failed to resolve combat:'' err])"
    by (simp add: handleSyllogismAnswer_def)
  have hook:
    "\<forall>effs err. pid \<noteq> [] \<and> getPlayerState fetchP pid = (effs, Inl err) \<longrightarrow>
      refreshPlayerState fetchP (Some pid) hs =
        (hs\<lparr>hookError := Some (message err), loading := False\<rparr>, effs)"
  proof (intro allI impI)
    fix effs err
    assume "pid \<noteq> [] \<and> getPlayerState fetchP pid = (effs, Inl err)"
    then show "refreshPlayerState fetchP (Some pid) hs =
        (hs\<lparr>hookError := Some (message err), loading := False\<rparr>, effs)"
      by (cases err) (simp_all add: refreshPlayerState_def)
  qed
  from api create choice combat hook show ?thesis by blast
qed

theorem apiRequest_rejects_non_ok_and_handlers_log_witness:
  "snd (apiRequest (failWith 500 ''Internal Server Error'' :: PlayerState option fetch) ''/player/p1''
         \<lparr>initMethod = None, initBody = None\<rparr>)
     = Inl (Error ''API Error: 500 Internal Server Error'')
   \<and> snd (apiRequest (respond samplePlayer) ''/player/p1'' \<lparr>initMethod = None, initBody = None\<rparr>)
     = Inr samplePlayer
   \<and> snd (apiRequest (offline :: PlayerState fetch) ''/player/p1'' \<lparr>initMethod = None, initBody = None\<rparr>)
     = Inl (TypeError ''Failed to fetch'')
   \<and> handleCreatePlayer offline (js ''Sartre'') Existentialist initialAppState =
       (initialAppState,
        [Fetch (apiRequest_request ''/player/create''
           \<lparr>initMethod = Some ''POST'',
            initBody = Some (Object [(''playerName'', String ''Sartre''),
                                     (''initialAlignment'', String ''Existentialist'')])\<rparr>),
         ConsoleError ''Failed to create player:'' (TypeError ''Failed to fetch'')])
   \<and> handleScenarioChoice (failWith 404 ''Not Found'') ''pull_lever'' scenarioState =
       (scenarioState,
        [Fetch (choiceRequest ''p1'' ''trolley_problem'' ''pull_lever''),
         ConsoleError ''Failed to process choice:'' (Error ''API Error: 404 Not Found'')])
   \<and> handleSyllogismAnswer unparsable True combatState =
       (combatState,
        [Fetch (apiRequest_request ''/combat/syllogism''
           \<lparr>initMethod = Some ''POST'',
            initBody = Some (Object [(''requestPlayerId'', String ''p1''),
                                     (''syllogismId'', String ''current_syllogism''),
                                     (''playerAnswer'', Boolean True),
                                     (''enemyId'', String ''ghost_diogenes'')])\<rparr>),
         ConsoleError ''Failed to resolve combat:'' (SyntaxError ''Unexpected end of JSON input'')])
   \<and> refreshPlayerState (failWith 500 ''Internal Server Error'') (Some ''p1'') initialHookState =
       (initialHookState\<lparr>hookError := Some ''API Error: 500 Internal Server Error'', loading := False\<rparr>,
        [Fetch (apiRequest_request ''/player/p1'' \<lparr>initMethod = None, initBody = None\<rparr>)])"
proof -
  let ?init = "\<lparr>initMethod = None, initBody = None\<rparr>"
  let ?fail = "failWith 500 ''Internal Server Error'' :: PlayerState option fetch"
  let ?bad = "\<lparr>ok = False, status = 500, statusText = ''Internal Server Error'',
               json = Inl (SyntaxError ''Unexpected end of JSON input'')\<rparr> :: PlayerState option Response"
  let ?good = "\<lparr>ok = True, status = 200, statusText = ''OK'', json = Inr samplePlayer\<rparr>"
  have player: "playerState scenarioState = Some samplePlayer" "playerState combatState = Some samplePlayer"
    and scenario: "currentScenario scenarioState = Some trolley_problem"
    and enemy: "currentEnemy combatState = Some ghost_diogenes"
    by (simp_all add: scenarioState_eq combatState_eq initialAppState_def)
  have ids: "playerId samplePlayer = ''p1''" "scenarioId trolley_problem = ''trolley_problem''"
    "enemyId ghost_diogenes = ''ghost_diogenes''"
    by (simp_all add: samplePlayer_def trolley_problem_def ghost_diogenes_def)
  have show404: "show_nat 404 = ''404''" by code_simp
  have nonok: "snd (apiRequest ?fail ''/player/p1'' ?init) = Inl (Error ''API Error: 500 Internal Server Error'')"
    using apiRequest_rejects_non_ok_and_handlers_log
        [where fetch = ?fail and endpoint = "''/player/p1''" and options = ?init and response = ?bad,
         THEN conjunct1]
    by (simp add: failWith_def show_nat_500)
  have isok: "snd (apiRequest (respond samplePlayer) ''/player/p1'' ?init) = Inr samplePlayer"
    using apiRequest_rejects_non_ok_and_handlers_log
        [where fetch = "respond samplePlayer" and endpoint = "''/player/p1''" and options = ?init
           and response = ?good, THEN conjunct2, THEN conjunct1]
    by (simp add: respond_def)
  have rejected: "snd (apiRequest (offline :: PlayerState fetch) ''/player/p1'' ?init)
      = Inl (TypeError ''Failed to fetch'')"
    using apiRequest_rejects_non_ok_and_handlers_log
        [where fetch = "offline :: PlayerState fetch" and endpoint = "''/player/p1''" and options = ?init
           and rejection = "TypeError ''Failed to fetch''", THEN conjunct2, THEN conjunct2, THEN conjunct1]
    by (simp add: offline_def)
  have create: "handleCreatePlayer offline (js ''Sartre'') Existentialist initialAppState =
       (initialAppState,
        [Fetch (apiRequest_request ''/player/create''
           \<lparr>initMethod = Some ''POST'',
            initBody = Some (Object [(''playerName'', String ''Sartre''),
                                     (''initialAlignment'', String ''Existentialist'')])\<rparr>),
         ConsoleError ''Failed to create player:'' (TypeError ''Failed to fetch'')])"
    using apiRequest_rejects_non_ok_and_handlers_log [where fetchP = offline and name' = "js ''Sartre''"
        and alignment = Existentialist and st = initialAppState,
        THEN conjunct2, THEN conjunct2, THEN conjunct2, THEN conjunct1]
    by (simp add: createPlayer_offline createRequest_def)
  have choice: "handleScenarioChoice (failWith 404 ''Not Found'') ''pull_lever'' scenarioState =
       (scenarioState,
        [Fetch (choiceRequest ''p1'' ''trolley_problem'' ''pull_lever''),
         ConsoleError ''Failed to process choice:'' (Error ''API Error: 404 Not Found'')])"
    using apiRequest_rejects_non_ok_and_handlers_log [where fetchA = "failWith 404 ''Not Found''"
        and choiceId' = "''pull_lever''" and st = scenarioState and p = samplePlayer
        and s = trolley_problem,
        THEN conjunct2, THEN conjunct2, THEN conjunct2, THEN conjunct2, THEN conjunct1] player scenario
    by (simp add: ids submitGameAction_def apiRequest_def Let_def failWith_def show404 choiceRequest_def)
  have combat: "handleSyllogismAnswer unparsable True combatState =
       (combatState,
        [Fetch (apiRequest_request ''/combat/syllogism''
           \<lparr>initMethod = Some ''POST'',
            initBody = Some (Object [(''requestPlayerId'', String ''p1''),
                                     (''syllogismId'', String ''current_syllogism''),
                                     (''playerAnswer'', Boolean True),
                                     (''enemyId'', String ''ghost_diogenes'')])\<rparr>),
         ConsoleError ''Failed to resolve combat:'' (SyntaxError ''Unexpected end of JSON input'')])"
    using apiRequest_rejects_non_ok_and_handlers_log [where fetchC = unparsable
        and answer = True and st = combatState and p = samplePlayer and e = ghost_diogenes,
        THEN conjunct2, THEN conjunct2, THEN conjunct2, THEN conjunct2, THEN conjunct2, THEN conjunct1]
      player enemy
    by (simp add: ids resolveSyllogismCombat_def apiRequest_def Let_def unparsable_def
        apiRequest_request_def)
  have hook: "refreshPlayerState ?fail (Some ''p1'') initialHookState =
       (initialHookState\<lparr>hookError := Some ''API Error: 500 Internal Server Error'', loading := False\<rparr>,
        [Fetch (apiRequest_request ''/player/p1'' ?init)])"
    using apiRequest_rejects_non_ok_and_handlers_log [where fetchP = ?fail
        and pid = "''p1''" and hs = initialHookState,
        THEN conjunct2, THEN conjunct2, THEN conjunct2, THEN conjunct2, THEN conjunct2, THEN conjunct2]
    by (simp add: getPlayerState_def apiRequest_def Let_def failWith_def show_nat_500
        apiRequest_request_def)
  from nonok isok rejected create choice combat hook show ?thesis by simp
qed

section \<open>C5: resolving a scenario choice\<close>

text \<open>
  C5. With a player and a scenario present, \<open>handleScenarioChoice\<close> sends one request, a
  POST to \<open>/action\<close> with the body
  \<open>{playerId, action: {type: 'MakeChoice', scenarioId, choiceId}}\<close>. If it is answered
  with an ok response and a body whose \<open>type\<close> is \<open>StateUpdate\<close>, \<open>playerState\<close> becomes
  the body's \<open>playerState\<close>, the scenario is cleared and the phase is exploration; with any
  other \<open>type\<close> the state is the one before the call.
\<close>

theorem scenario_choice_applied_on_StateUpdate:
  "playerState st = Some p \<Longrightarrow> currentScenario st = Some s \<Longrightarrow>
   fetched (snd (handleScenarioChoice fetch choiceId' st)) =
     [choiceRequest (playerId p) (scenarioId s) choiceId']
   \<and> (\<forall>response body.
         fetch (choiceRequest (playerId p) (scenarioId s) choiceId') = Inr response
         \<and> ok response \<and> json response = Inr body \<longrightarrow>
         fst (handleScenarioChoice fetch choiceId' st) =
           (if responseType body = String ''StateUpdate''
            then st\<lparr>playerState := responsePlayerState body, currentScenario := None,
                    gamePhase := Phase_exploration\<rparr>
            else st))"
  by (auto simp: handleScenarioChoice_def submitGameAction_def apiRequest_def Let_def choiceRequest_def
           split: sum.splits)

theorem scenario_choice_applied_on_StateUpdate_witness:
  "playerState scenarioState = Some samplePlayer \<and> currentScenario scenarioState = Some trolley_problem
   \<and> fetched (snd (handleScenarioChoice (respond stateUpdate) ''pull_lever'' scenarioState)) =
       [choiceRequest ''p1'' ''trolley_problem'' ''pull_lever'']
   \<and> fst (handleScenarioChoice (respond stateUpdate) ''pull_lever'' scenarioState) =
       scenarioState\<lparr>playerState := Some (samplePlayer\<lparr>philosophicalAlignment := Utilitarian\<rparr>),
                      currentScenario := None, gamePhase := Phase_exploration\<rparr>
   \<and> fst (handleScenarioChoice (respond otherUpdate) ''pull_lever'' scenarioState) = scenarioState"
proof -
  have player: "playerState scenarioState = Some samplePlayer"
    and scenario: "currentScenario scenarioState = Some trolley_problem"
    by (simp_all add: scenarioState_eq initialAppState_def)
  have ids: "playerId samplePlayer = ''p1''" "scenarioId trolley_problem = ''trolley_problem''"
    by (simp_all add: samplePlayer_def trolley_problem_def)
  note applied = scenario_choice_applied_on_StateUpdate [OF player scenario,
      of "respond stateUpdate" "''pull_lever''"]
  note ignored = scenario_choice_applied_on_StateUpdate [OF player scenario,
      of "respond otherUpdate" "''pull_lever''"]
  show ?thesis
    using applied ignored player scenario
    by (simp add: ids respond_def stateUpdate_def otherUpdate_def)
qed

section \<open>C6: permanent markers are only added\<close>

text \<open>
  C6. Checked against the ledger of the specification: an impact leaves every marker of
  the player in place, adds the markers that the new history triggers and makes the
  history one entry longer, so that along any sequence of impacts the markers of the state
  before are markers of the state after. On the
  client, an event that sends no request leaves \<open>playerState\<close>, and with it the markers,
  as it is, and the quick test states of the development panel, the one place of the
  source that writes a list of markers, are never applied in \<open>Game\<close> as it is mounted.
\<close>

theorem markers_are_add_only:
  "set (permanentMarkers (authenticityMetric player'))
     \<subseteq> set (permanentMarkers (applyImpact rules now player' amount reason' label))
   \<and> set (triggeredMarkers rules (history (applyImpact rules now player' amount reason' label)))
       \<subseteq> set (permanentMarkers (applyImpact rules now player' amount reason' label))
   \<and> length (history (applyImpact rules now player' amount reason' label))
       = Suc (length (history (authenticityMetric player')))
   \<and> set (permanentMarkers (authenticityMetric player'))
       \<subseteq> set (permanentMarkers (authenticityMetric (withImpacts rules player' impacts)))
   \<and> length (history (authenticityMetric (withImpacts rules player' impacts)))
       = length (history (authenticityMetric player')) + length impacts
   \<and> (fetched (snd (dispatch fetchP fetchA fetchC ev st)) = [] \<longrightarrow>
        playerState (fst (dispatch fetchP fetchA fetchC ev st)) = playerState st)
   \<and> player (foldl gameStep initialGameState evs) = None"
  using applyImpact_markers [of player' rules now amount reason' label]
    applyImpact_triggered [of rules now player' amount reason' label]
    applyImpact_history [of rules now player' amount reason' label]
    withImpacts_markers [of player' rules impacts]
    withImpacts_history [of rules player' impacts]
    dispatch_without_request_keeps [of fetchP fetchA fetchC ev st]
    Game_player_always_null [of evs]
  by blast

theorem markers_are_add_only_witness:
  "permanentMarkers (authenticityMetric samplePlayer) = [Sophist]
   \<and> permanentMarkers (authenticityMetric (withImpacts sampleRules samplePlayer sampleImpacts))
       = [Sophist, Hypocrite]
   \<and> length (history (authenticityMetric (withImpacts sampleRules samplePlayer sampleImpacts))) = 3
   \<and> metricValue (authenticityMetric (withImpacts sampleRules samplePlayer sampleImpacts)) = 60
   \<and> fetched (snd (dispatch offline offline offline (KeyDown ''Escape'' 0) combatState)) = []
   \<and> playerState (fst (dispatch offline offline offline (KeyDown ''Escape'' 0) combatState))
       = Some samplePlayer"
proof -
  have before: "permanentMarkers (authenticityMetric samplePlayer) = [Sophist]"
    by (simp add: samplePlayer_def)
  have after: "authenticityMetric (withImpacts sampleRules samplePlayer sampleImpacts) =
      \<lparr>metricValue = 60,
       history =
         [\<lparr>timestamp = ''2024-01-01T10:00:00Z'', choice = ''pull_lever'', impact = 5,
           reason = ''Utilitarian calculus''\<rparr>,
          \<lparr>timestamp = ''2024-01-01T10:05:00Z'', choice = ''dont_pull'', impact = 3,
           reason = ''Personal responsibility''\<rparr>,
          \<lparr>timestamp = ''2024-01-01T10:10:00Z'', choice = ''walk_away'', impact = 2,
           reason = ''Rejection of moral frameworks''\<rparr>],
       permanentMarkers = [Sophist, Hypocrite]\<rparr>"
    by (simp add: withImpacts_def sampleImpacts_def sampleRules_def samplePlayer_def applyImpact_def
        triggeredMarkers_def clamp_def Let_def)
  have escape: "dispatch offline offline offline (KeyDown ''Escape'' 0) combatState =
      (combatState\<lparr>currentScenario := None, currentEnemy := None, gamePhase := Phase_exploration\<rparr>, [])"
    by (simp add: handleKeyPress_def toLowerCase_Escape combatState_eq)
  have held: "playerState combatState = Some samplePlayer"
    by (simp add: combatState_eq)
  from markers_are_add_only [of samplePlayer sampleRules "''2024-01-01T10:00:00Z''" 5
        "''Utilitarian calculus''" "''pull_lever''" sampleImpacts
        offline offline offline "KeyDown ''Escape'' 0" combatState "[]"]
    before after escape held
  show ?thesis by simp
qed

section \<open>C7: creating a player with a blank name\<close>

text \<open>
  C7. A name is blank when its trimmed form is empty, that is, when it is made of white
  space only. For a blank name the button "Begin Journey" is disabled and its handler
  neither sends a request nor changes the state, so that the client creates no player;
  and the registry of the specification, were it asked, fails with \<open>ValidationError\<close>. For
  any other name the handler calls \<open>handleCreatePlayer\<close> with the name as typed, and the
  registry does not fail. No event of the component sends a request to create a player
  with a blank name.
\<close>

theorem blank_name_creates_no_player:
  "(trim name' = [] \<longrightarrow>
      beginJourney_disabled name'
      \<and> beginJourney_onClick fetch name' alignment st = (st, [])
      \<and> registry_createPlayer newId deriveMaxHitPoints name' alignment = Inl ValidationError)
   \<and> (trim name' \<noteq> [] \<longrightarrow>
      \<not> beginJourney_disabled name'
      \<and> beginJourney_onClick fetch name' alignment st = handleCreatePlayer fetch name' alignment st
      \<and> (\<exists>created. registry_createPlayer newId deriveMaxHitPoints name' alignment = Inr created
            \<and> name created = name'))
   \<and> (createRequest n a \<in> set (fetched (snd (dispatch fetchP fetchA fetchC ev st0))) \<longrightarrow>
        trim n \<noteq> [])"
proof -
  have blank: "trim name' = [] \<longrightarrow>
      beginJourney_disabled name'
      \<and> beginJourney_onClick fetch name' alignment st = (st, [])
      \<and> registry_createPlayer newId deriveMaxHitPoints name' alignment = Inl ValidationError"
    by (simp add: beginJourney_disabled_def beginJourney_onClick_def registry_createPlayer_def
        trim_empty_iff [symmetric])
  have named: "trim name' \<noteq> [] \<longrightarrow>
      \<not> beginJourney_disabled name'
      \<and> beginJourney_onClick fetch name' alignment st = handleCreatePlayer fetch name' alignment st
      \<and> (\<exists>created. registry_createPlayer newId deriveMaxHitPoints name' alignment = Inr created
            \<and> name created = name')"
    by (simp add: beginJourney_disabled_def beginJourney_onClick_def registry_createPlayer_def
        trim_empty_iff [symmetric])
  from blank named createRequest_only_named [of n a fetchP fetchA fetchC ev st0]
  show ?thesis by blast
qed

theorem blank_name_creates_no_player_witness:
  "trim threeSpaces = []
   \<and> beginJourney_disabled threeSpaces
   \<and> beginJourney_onClick (respond (Some samplePlayer)) threeSpaces Undecided initialAppState
       = (initialAppState, [])
   \<and> registry_createPlayer ''p2'' (\<lambda>level' body' mind' heart'. 20) threeSpaces Undecided
       = Inl ValidationError
   \<and> trim wideBlank = []
   \<and> beginJourney_onClick (respond (Some samplePlayer)) wideBlank Undecided initialAppState
       = (initialAppState, [])
   \<and> registry_createPlayer ''p2'' (\<lambda>level' body' mind' heart'. 20) wideBlank Undecided
       = Inl ValidationError
   \<and> trim (js ''Sartre'') \<noteq> []
   \<and> \<not> beginJourney_disabled (js ''Sartre'')
   \<and> beginJourney_onClick (respond (Some samplePlayer)) (js ''Sartre'') Existentialist initialAppState =
       (initialAppState\<lparr>playerState := Some samplePlayer, gamePhase := Phase_exploration\<rparr>,
        [Fetch (createRequest (js ''Sartre'') Existentialist)])
   \<and> createRequest (js ''Sartre'') Existentialist
       \<in> set (fetched (snd (dispatch (respond (Some samplePlayer)) offline offline
            (BeginJourneyClicked (js ''Sartre'') Existentialist) initialAppState)))"
proof -
  let ?derive = "\<lambda>level' body' mind' heart'. 20 :: real"
  let ?backend = "respond (Some samplePlayer)"
  have named: "trim (js ''Sartre'') \<noteq> []"
    by (simp add: trim_Sartre)
  have created: "handleCreatePlayer ?backend (js ''Sartre'') Existentialist initialAppState =
       (initialAppState\<lparr>playerState := Some samplePlayer, gamePhase := Phase_exploration\<rparr>,
        [Fetch (createRequest (js ''Sartre'') Existentialist)])"
    by (simp add: handleCreatePlayer_def createPlayer_eq respond_def)
  have sent: "createRequest (js ''Sartre'') Existentialist
       \<in> set (fetched (snd (dispatch ?backend offline offline
            (BeginJourneyClicked (js ''Sartre'') Existentialist) initialAppState)))"
    using named created by (simp add: beginJourney_onClick_def)
  note spaces = blank_name_creates_no_player
      [where name' = threeSpaces and fetch = ?backend and alignment = Undecided
         and st = initialAppState and newId = "''p2''" and deriveMaxHitPoints = ?derive,
       THEN conjunct1]
  note wide = blank_name_creates_no_player
      [where name' = wideBlank and fetch = ?backend and alignment = Undecided
         and st = initialAppState and newId = "''p2''" and deriveMaxHitPoints = ?derive,
       THEN conjunct1]
  note typed = blank_name_creates_no_player
      [where name' = "js ''Sartre''" and fetch = ?backend and alignment = Existentialist
         and st = initialAppState and newId = "''p2''" and deriveMaxHitPoints = ?derive
         and n = "js ''Sartre''" and a = Existentialist and fetchP = ?backend and fetchA = offline
         and fetchC = offline and ev = "BeginJourneyClicked (js ''Sartre'') Existentialist"
         and ?st0.0 = initialAppState]
  from spaces wide typed trim_threeSpaces trim_wideBlank named created sent
  show ?thesis by simp
qed

section \<open>C8: handlers outside their preconditions\<close>

text \<open>
  C8. The two action handlers return at once when a state variable they need is null:
  \<open>handleScenarioChoice\<close> when \<open>playerState\<close> or \<open>currentScenario\<close> is null,
  \<open>handleSyllogismAnswer\<close> when \<open>playerState\<close> or \<open>currentEnemy\<close> is null. Then the
  state is the one they were called in and no request (indeed no effect at all) happens.
\<close>

theorem handlers_noop_outside_preconditions:
  "(playerState st = None \<or> currentScenario st = None
      \<longrightarrow> handleScenarioChoice fetchA choiceId' st = (st, []))
   \<and> (playerState st = None \<or> currentEnemy st = None
      \<longrightarrow> handleSyllogismAnswer fetchC answer st = (st, []))"
  by (auto simp: handleScenarioChoice_def handleSyllogismAnswer_def split: option.splits)

theorem handlers_noop_outside_preconditions_witness:
  "(playerState initialAppState = None \<or> currentScenario initialAppState = None)
   \<and> handleScenarioChoice (\<lambda>r. Inl (TypeError ''Failed to fetch'')) ''pull_lever'' initialAppState
       = (initialAppState, [])
   \<and> (playerState initialAppState = None \<or> currentEnemy initialAppState = None)
   \<and> handleSyllogismAnswer (\<lambda>r. Inl (TypeError ''Failed to fetch'')) True initialAppState
       = (initialAppState, [])"
  using handlers_noop_outside_preconditions
          [of initialAppState "\<lambda>r. Inl (TypeError ''Failed to fetch'')" "''pull_lever''"
              "\<lambda>r. Inl (TypeError ''Failed to fetch'')" True]
  by (simp add: initialAppState_def)

section \<open>C9: the Escape key\<close>

text \<open>
  The claim that Escape always leaves the combat phase fails when no player is held. In
  the state reached by creating a player, meeting the ghost and answering once, where the
  backend's answer carried no \<open>updatedPlayer\<close> and a true \<open>continuesCombat\<close>, the phase is
  combat and \<open>playerState\<close> is null: the listener returns at its first line.
\<close>

theorem escape_ignored_without_player:
  "gamePhase strandedCombat = Phase_combat
   \<and> handleKeyPress ''Escape'' 0 strandedCombat = (strandedCombat, [])
   \<and> currentEnemy (fst (handleKeyPress ''Escape'' 0 strandedCombat)) = Some ghost_diogenes
   \<and> gamePhase (fst (handleKeyPress ''Escape'' 0 strandedCombat)) \<noteq> Phase_exploration"
  by (simp add: strandedCombat_eq handleKeyPress_def initialAppState_def)

text \<open>
  C9, amended. When a key whose name lower-cases to \<open>escape\<close> goes down, and a player is
  held, and the phase is scenario or combat, then scenario and enemy are cleared and the
  phase is exploration; in any other phase, or without a player, the state is unchanged.
  In every case \<open>playerState\<close> is the one before and no request is sent.
\<close>

theorem escape_closes_overlay:
  "toLowerCase key = ''escape'' \<Longrightarrow>
   handleKeyPress key draw st =
     (if playerState st \<noteq> None \<and> (gamePhase st = Phase_scenario \<or> gamePhase st = Phase_combat)
      then st\<lparr>currentScenario := None, currentEnemy := None, gamePhase := Phase_exploration\<rparr>
      else st, [])
   \<and> playerState (fst (handleKeyPress key draw st)) = playerState st
   \<and> fetched (snd (handleKeyPress key draw st)) = []"
  by (simp add: handleKeyPress_def)

theorem escape_closes_overlay_witness:
  "toLowerCase ''Escape'' = ''escape''
   \<and> handleKeyPress ''Escape'' 0 combatState =
       (combatState\<lparr>currentScenario := None, currentEnemy := None, gamePhase := Phase_exploration\<rparr>, [])
   \<and> playerState (fst (handleKeyPress ''Escape'' 0 combatState)) = Some samplePlayer"
  using escape_closes_overlay [of "''Escape''" 0 combatState]
  by (simp add: toLowerCase_Escape combatState_eq initialAppState_def)

section \<open>C10: the spacebar encounter\<close>

text \<open>
  C10. With a player held and the phase exploration, the spacebar sets \<open>currentEnemy\<close> to
  the ghost of Diogenes and the phase to combat when the draw is below the threshold, and
  otherwise sets \<open>currentScenario\<close> to the trolley problem and the phase to scenario. The
  ghost has as many hit points as its maximum and its own flaw as its weakness; and any
  enemy that an event of the component newly puts into \<open>currentEnemy\<close> has these
  properties, with the phase then being combat.
\<close>

theorem spacebar_encounter:
  "playerState st \<noteq> None \<Longrightarrow> gamePhase st = Phase_exploration \<Longrightarrow> toLowerCase key = '' '' \<Longrightarrow>
   (draw < encounterThreshold \<longrightarrow>
      handleKeyPress key draw st =
        (st\<lparr>currentEnemy := Some ghost_diogenes, gamePhase := Phase_combat\<rparr>, []))
   \<and> (\<not> draw < encounterThreshold \<longrightarrow>
      handleKeyPress key draw st =
        (st\<lparr>currentScenario := Some trolley_problem, gamePhase := Phase_scenario\<rparr>, []))
   \<and> enemyHitPoints ghost_diogenes = enemyMaxHitPoints ghost_diogenes
   \<and> weakness ghost_diogenes = representedFlaw ghost_diogenes
   \<and> (currentEnemy (fst (dispatch fetchP fetchA fetchC ev s0)) = Some e \<and> currentEnemy s0 \<noteq> Some e \<longrightarrow>
        enemyHitPoints e = enemyMaxHitPoints e \<and> weakness e = representedFlaw e
        \<and> gamePhase (fst (dispatch fetchP fetchA fetchC ev s0)) = Phase_combat)"
proof -
  assume "playerState st \<noteq> None" "gamePhase st = Phase_exploration" "toLowerCase key = '' ''"
  then have branches:
    "draw < encounterThreshold \<longrightarrow>
      handleKeyPress key draw st =
        (st\<lparr>currentEnemy := Some ghost_diogenes, gamePhase := Phase_combat\<rparr>, [])"
    "\<not> draw < encounterThreshold \<longrightarrow>
      handleKeyPress key draw st =
        (st\<lparr>currentScenario := Some trolley_problem, gamePhase := Phase_scenario\<rparr>, [])"
    by (auto simp: handleKeyPress_def)
  have ghost: "enemyHitPoints ghost_diogenes = enemyMaxHitPoints ghost_diogenes"
    "weakness ghost_diogenes = representedFlaw ghost_diogenes"
    by (simp_all add: ghost_diogenes_def)
  from branches ghost dispatch_new_enemy [of fetchP fetchA fetchC ev s0 e]
  show ?thesis by auto
qed

theorem spacebar_encounter_witness:
  "playerState explorationState \<noteq> None \<and> gamePhase explorationState = Phase_exploration
   \<and> toLowerCase '' '' = '' ''
   \<and> (1/10 :: real) < encounterThreshold
   \<and> handleKeyPress '' '' (1/10) explorationState =
       (explorationState\<lparr>currentEnemy := Some ghost_diogenes, gamePhase := Phase_combat\<rparr>, [])
   \<and> \<not> (1/2 :: real) < encounterThreshold
   \<and> handleKeyPress '' '' (1/2) explorationState =
       (explorationState\<lparr>currentScenario := Some trolley_problem, gamePhase := Phase_scenario\<rparr>, [])
   \<and> currentEnemy (fst (dispatch offline offline offline (KeyDown '' '' (1/10)) explorationState))
       = Some ghost_diogenes
   \<and> currentEnemy explorationState \<noteq> Some ghost_diogenes
   \<and> enemyHitPoints ghost_diogenes = enemyMaxHitPoints ghost_diogenes
   \<and> weakness ghost_diogenes = representedFlaw ghost_diogenes
   \<and> gamePhase (fst (dispatch offline offline offline (KeyDown '' '' (1/10)) explorationState)) = Phase_combat"
proof -
  have player: "playerState explorationState \<noteq> None"
    and phase: "gamePhase explorationState = Phase_exploration"
    and enemy: "currentEnemy explorationState = None"
    by (simp_all add: explorationState_eq initialAppState_def)
  have low: "(1/10 :: real) < encounterThreshold" and high: "\<not> (1/2 :: real) < encounterThreshold"
    by (simp_all add: encounterThreshold_def)
  note enc = spacebar_encounter [OF player phase toLowerCase_space,
      of "1/10" offline offline offline "KeyDown '' '' (1/10)" explorationState ghost_diogenes]
  note scen = spacebar_encounter [OF player phase toLowerCase_space,
      of "1/2" offline offline offline "KeyDown '' '' (1/10)" explorationState ghost_diogenes]
  show ?thesis
    using enc scen player phase enemy low high toLowerCase_space by simp
qed

end
